theory Spec2Isabelle
  imports Main "HOL-Library.Word" "HOL-Library.AList" "HOL-Library.Sublist"
begin

section \<open>Go library functions used by the sources\<close>

text \<open>
  Go strings are byte sequences; they are modelled as \<open>string\<close> (a list of 8-bit
  characters). A panic of the Go runtime (index out of range, nil dereference, failed type
  assertion) is the value \<open>Panic\<close> of the result type below; \<open>Fatal\<close> is the end
  of the process by \<open>log.Fatalf\<close>.
\<close>

datatype 'a outcome = Panic | Fatal | Returned 'a

text \<open>\<open>strings.HasPrefix(s, prefix)\<close> and \<open>strings.HasSuffix(s, suffix)\<close>.\<close>

definition HasPrefix :: "string \<Rightarrow> string \<Rightarrow> bool" where
  "HasPrefix s pre = (length s \<ge> length pre \<and> take (length pre) s = pre)"

definition HasSuffix :: "string \<Rightarrow> string \<Rightarrow> bool" where
  "HasSuffix s suf = (length s \<ge> length suf \<and> drop (length s - length suf) s = suf)"

text \<open>
  \<open>strings.Split(s, sep)\<close> for a separator of one byte: the pieces between the
  separators, always at least one piece.
\<close>

fun SplitAcc :: "char \<Rightarrow> string \<Rightarrow> string \<Rightarrow> string list" where
  "SplitAcc sep acc [] = [acc]"
| "SplitAcc sep acc (c # cs) =
     (if c = sep then acc # SplitAcc sep [] cs else SplitAcc sep (acc @ [c]) cs)"

definition Split :: "string \<Rightarrow> char \<Rightarrow> string list" where
  "Split s sep = SplitAcc sep [] s"

text \<open>\<open>strings.Join(elems, sep)\<close>.\<close>

fun Join :: "string list \<Rightarrow> string \<Rightarrow> string" where
  "Join [] sep = []"
| "Join [x] sep = x"
| "Join (x # y # ys) sep = x @ sep @ Join (y # ys) sep"

section \<open>The gateway's URI classifier\<close>

text \<open>
  Modelled from the spec: the request actions \<open>es.RequestAction...\<close> are string
  constants declared outside the files at hand. Each parsed REST action of the spec (get
  info, create, update, upsert, delete and get document, search, cluster health and
  settings, get and update mapping, get and update settings, bulk, get, create and delete
  index) is a tag of its own, and none of them is the empty string, the zero value a
  result holds when no action was assigned (\<open>RequestActionNone\<close> here).
\<close>

datatype request_action =
    RequestActionNone
  | RequestActionGetInfo
  | RequestActionCreateDocument
  | RequestActionUpdateDocument
  | RequestActionUpsertDocument
  | RequestActionDeleteDocument
  | RequestActionDocument
  | RequestActionSearch
  | RequestActionSearchLimit
  | RequestActionClusterHealth
  | RequestActionClusterSettings
  | RequestActionGetIndexMapping
  | RequestActionUpdateIndexMapping
  | RequestActionGetIndexSettings
  | RequestActionUpdateIndexSettings
  | RequestActionBulk
  | RequestActionGetIndex
  | RequestActionCreateIndex
  | RequestActionDeleteIndex

text \<open>\<open>es.UriPathParserResult\<close>, with the fields \<open>parseUriPath\<close> assigns.\<close>

record UriPathParserResult =
  HttpAction :: string
  Uri :: string
  RequestAction :: request_action
  Index :: string
  IndexType :: string
  DocumentId :: string

datatype gateway_error =
    InvalidUri string
  | UnmarshalError
  | InvalidMappingsFormat
  | InvalidPropertiesFormat

text \<open>
  \<open>strings.Join(append(segments[:2], segments[3:]...), "/")\<close>: the path without its
  third segment. Every caller has at least four segments there and has read
  \<open>segments[2]\<close> and \<open>segments[3]\<close> before, so the overwrite of the shared backing
  array by \<open>append\<close> is not observed.
\<close>

definition dropTypeSegment :: "string list \<Rightarrow> string" where
  "dropTypeSegment segments = Join (take 2 segments @ drop 3 segments) ''/''"

text \<open>
  \<open>ESGateway.parseUriPath(httpAction, uriPath, esInstance)\<close>; the cluster version
  string of \<open>esInstance\<close> is the third argument. The function returns a result and an
  optional error; \<open>segments[1]\<close> on a path without a slash panics.
\<close>

definition parseUriPath ::
  "string \<Rightarrow> string \<Rightarrow> string \<Rightarrow> (UriPathParserResult \<times> gateway_error option) outcome" where
  "parseUriPath httpAction uriPath clusterVersion =
    (let needType = (HasPrefix clusterVersion ''5.'' \<or> HasPrefix clusterVersion ''6.'');
         result = \<lparr>HttpAction = httpAction, Uri = uriPath, RequestAction = RequestActionNone,
                   Index = [], IndexType = [], DocumentId = []\<rparr>;
         segments = Split uriPath (CHR ''/'')
     in
     if uriPath = ''/'' \<and> httpAction = ''GET'' then
       Returned (result\<lparr>RequestAction := RequestActionGetInfo\<rparr>, None)
     else if HasSuffix ''/_create'' uriPath then
       (let r1 = (if httpAction = ''POST''
                  then result\<lparr>RequestAction := RequestActionCreateDocument\<rparr> else result)
        in if length segments < 2 then Panic
           else let r2 = r1\<lparr>Index := segments ! 1\<rparr> in
             if length segments = 5 then
               (let r3 = r2\<lparr>IndexType := segments ! 2, DocumentId := segments ! 3\<rparr>
                in Returned (if \<not> needType then r3\<lparr>Uri := dropTypeSegment segments\<rparr> else r3, None))
             else if length segments = 4 then Returned (r2\<lparr>DocumentId := segments ! 2\<rparr>, None)
             else Returned (r2, None))
     else if HasSuffix ''/_update'' uriPath then
       (let r1 = (if httpAction = ''POST''
                  then result\<lparr>RequestAction := RequestActionUpdateDocument\<rparr> else result)
        in if length segments < 2 then Panic
           else let r2 = r1\<lparr>Index := segments ! 1\<rparr> in
             if length segments = 5 then
               (let r3 = r2\<lparr>IndexType := segments ! 2, DocumentId := segments ! 3\<rparr>
                in Returned (if \<not> needType then r3\<lparr>Uri := dropTypeSegment segments\<rparr> else r3, None))
             else if length segments = 4 then Returned (r2\<lparr>DocumentId := segments ! 2\<rparr>, None)
             else Returned (r2, None))
     else if HasSuffix ''/_search'' uriPath then
       (let r0 = (if httpAction = ''GET''
                  then result\<lparr>RequestAction := RequestActionSearch\<rparr> else result);
            r1 = (if httpAction = ''POST''
                  then r0\<lparr>RequestAction := RequestActionSearchLimit\<rparr> else r0)
        in if length segments < 2 then Panic
           else let r2 = r1\<lparr>Index := segments ! 1\<rparr> in
             if length segments = 4 then
               (let r3 = r2\<lparr>IndexType := segments ! 2\<rparr>
                in Returned (if \<not> needType then r3\<lparr>Uri := dropTypeSegment segments\<rparr> else r3, None))
             else Returned (r2, None))
     else if uriPath = ''/_cluster/health'' then
       Returned (if httpAction = ''GET''
                 then result\<lparr>RequestAction := RequestActionClusterHealth\<rparr> else result, None)
     else if uriPath = ''/_cluster/settings'' then
       Returned (if httpAction = ''GET''
                 then result\<lparr>RequestAction := RequestActionClusterSettings\<rparr> else result, None)
     else if HasSuffix uriPath ''/_mapping'' then
       (let r0 = (if httpAction = ''GET''
                  then result\<lparr>RequestAction := RequestActionGetIndexMapping\<rparr> else result);
            r1 = (if httpAction = ''PUT''
                  then r0\<lparr>RequestAction := RequestActionUpdateIndexMapping\<rparr> else r0)
        in if length segments < 2 then Panic
           else let r2 = r1\<lparr>Index := segments ! 1\<rparr> in
             if length segments = 4 then
               (let r3 = r2\<lparr>IndexType := segments ! 2\<rparr>
                in Returned (if \<not> needType then r3\<lparr>Uri := dropTypeSegment segments\<rparr> else r3, None))
             else Returned (r2, None))
     else if HasSuffix uriPath ''/_settings'' then
       (let r0 = (if httpAction = ''GET''
                  then result\<lparr>RequestAction := RequestActionGetIndexSettings\<rparr> else result);
            r1 = (if httpAction = ''PUT''
                  then r0\<lparr>RequestAction := RequestActionUpdateIndexSettings\<rparr> else r0)
        in if length segments < 2 then Panic
           else Returned (r1\<lparr>Index := segments ! 1\<rparr>, None))
     else if HasSuffix uriPath ''/_bulk'' then
       Returned (result\<lparr>RequestAction := RequestActionBulk\<rparr>, None)
     else if length segments = 2 then
       (let r0 = (if httpAction = ''GET''
                  then result\<lparr>RequestAction := RequestActionGetIndex\<rparr> else result);
            r1 = (if httpAction = ''PUT''
                  then r0\<lparr>RequestAction := RequestActionCreateIndex\<rparr> else r0);
            r2 = (if httpAction = ''DELETE''
                  then r1\<lparr>RequestAction := RequestActionDeleteIndex\<rparr> else r1)
        in Returned (r2\<lparr>Index := segments ! 1\<rparr>, None))
     else if length segments \<ge> 3 then
       (let r0 = (if httpAction = ''GET''
                  then result\<lparr>RequestAction := RequestActionDocument\<rparr> else result);
            r1 = (if httpAction = ''PUT''
                  then r0\<lparr>RequestAction := RequestActionUpsertDocument\<rparr> else r0);
            r2 = (if httpAction = ''DELETE''
                  then r1\<lparr>RequestAction := RequestActionDeleteDocument\<rparr> else r1);
            r3 = r2\<lparr>Index := segments ! 1\<rparr>
        in if length segments = 4 then
             (let r4 = r3\<lparr>IndexType := segments ! 2, DocumentId := segments ! 3\<rparr>
              in Returned (if \<not> needType then r4\<lparr>Uri := dropTypeSegment segments\<rparr> else r4, None))
           else if length segments = 3 then Returned (r3\<lparr>DocumentId := segments ! 2\<rparr>, None)
           else Returned (r3, None))
     else Returned (result, Some (InvalidUri uriPath)))"

text \<open>The action a call assigned, when it returned.\<close>

definition actionOf ::
  "(UriPathParserResult \<times> gateway_error option) outcome \<Rightarrow> request_action option" where
  "actionOf out = (case out of Panic \<Rightarrow> None | Fatal \<Rightarrow> None
                   | Returned (r, e) \<Rightarrow> Some (RequestAction r))"


section \<open>The bulk migrator's configuration builder\<close>

text \<open>
  Go's \<open>uint\<close> on a 64-bit platform. A cluster adapter (\<open>es.ES\<close>, an interface
  holding a pointer) is modelled by the address of the adapter object, so that Go's
  comparison of two interface values is the comparison of two addresses.
\<close>

type_synonym uint = "64 word"

type_synonym es_ref = nat

text \<open>\<open>config.IndexPair\<close>, with the two fields the sources read.\<close>

record IndexPair =
  SourceIndex :: string
  TargetIndex :: string

text \<open>
  Errors of the cluster adapter (package \<open>es\<close>): a failed transport, a response that
  \<open>formatError\<close> turned into an error, a failed scan or decode of a response body, and
  the error of \<open>BulkBody\<close> on an operation it does not know.
\<close>

datatype es_error =
    TransportError string
  | ClusterError int string
  | ScanError string
  | DecodeError string
  | UnknownAction nat

text \<open>Errors of package \<open>service\<close>: the adapter's, or a pattern that does not compile.\<close>

datatype service_error = AdapterError es_error | PatternError string

text \<open>
  The values the builder keeps in its \<open>context.Context\<close>: the two cluster versions that
  \<open>NewBulkMigratorWithES\<close> stores and the flag that \<open>filterIndexes\<close> reads.
\<close>

record ctx_values =
  CtxSourceESVersion :: string
  CtxTargetESVersion :: string
  CtxIgnoreSystemIndex :: bool

text \<open>
  \<open>BulkMigrator\<close>. The map \<open>IndexPairMap\<close> is an association list; \<open>Error\<close> is
  \<open>None\<close> for Go's \<open>nil\<close>; a nil slice of ids is the empty list.
\<close>

record BulkMigrator =
  ctx :: ctx_values
  SourceES :: es_ref
  TargetES :: es_ref
  Parallelism :: uint
  IndexPairMap :: "(string \<times> IndexPair) list"
  Error :: "service_error option"
  ScrollSize :: uint
  ScrollTime :: uint
  SliceSize :: uint
  BufferCount :: uint
  WriteParallel :: uint
  WriteSize :: uint
  Ids :: "string list"
  CompareParallel :: uint

text \<open>
  Modelled from the spec: the constants \<open>defaultParallelism\<close>, \<open>defaultScrollSize\<close>,
  \<open>defaultScrollTime\<close>, \<open>defaultSliceSize\<close>, \<open>defaultBufferCount\<close>,
  \<open>defaultWriteParallel\<close>, \<open>defaultWriteSize\<close> and \<open>defaultCompareParallel\<close> are
  declared outside the files at hand; their values are the configuration defaults the
  spec lists (parallelism 8, scroll_size 1000, scroll_time 5, slice_size 1, buffer_count 4,
  write_parallel 4, write_size 1000, compare_parallel 4).
\<close>

definition defaultParallelism :: uint where "defaultParallelism = 8"
definition defaultScrollSize :: uint where "defaultScrollSize = 1000"
definition defaultScrollTime :: uint where "defaultScrollTime = 5"
definition defaultSliceSize :: uint where "defaultSliceSize = 1"
definition defaultBufferCount :: uint where "defaultBufferCount = 4"
definition defaultWriteParallel :: uint where "defaultWriteParallel = 4"
definition defaultWriteSize :: uint where "defaultWriteSize = 1000"
definition defaultCompareParallel :: uint where "defaultCompareParallel = 4"

text \<open>
  \<open>NewBulkMigratorWithES(ctx, sourceES, targetES)\<close>; \<open>GetClusterVersion\<close> reads the
  version of the adapter at an address.
\<close>

definition NewBulkMigratorWithES ::
  "(es_ref \<Rightarrow> string) \<Rightarrow> ctx_values \<Rightarrow> es_ref \<Rightarrow> es_ref \<Rightarrow> BulkMigrator" where
  "NewBulkMigratorWithES GetClusterVersion c sourceES targetES =
    (let c1 = c\<lparr>CtxSourceESVersion := GetClusterVersion sourceES\<rparr>;
         c2 = c1\<lparr>CtxTargetESVersion := GetClusterVersion targetES\<rparr>
     in \<lparr>ctx = c2, SourceES = sourceES, TargetES = targetES,
         Parallelism = defaultParallelism, IndexPairMap = [], Error = None,
         ScrollSize = defaultScrollSize, ScrollTime = defaultScrollTime,
         SliceSize = defaultSliceSize, BufferCount = defaultBufferCount,
         WriteParallel = defaultWriteParallel, WriteSize = defaultWriteSize,
         Ids = [], CompareParallel = defaultCompareParallel\<rparr>)"

text \<open>\<open>getIndexPairKey\<close>: \<open>fmt.Sprintf("%s:%s", SourceIndex, TargetIndex)\<close>.\<close>

definition getIndexPairKey :: "IndexPair \<Rightarrow> string" where
  "getIndexPairKey indexPair = SourceIndex indexPair @ '':'' @ TargetIndex indexPair"

text \<open>
  \<open>lo.Assign(a, b)\<close>: a new map with the entries of \<open>a\<close>, then those of \<open>b\<close>, a
  later entry replacing an earlier one of the same key.
\<close>

definition Assign :: "('k \<times> 'v) list \<Rightarrow> ('k \<times> 'v) list \<Rightarrow> ('k \<times> 'v) list" where
  "Assign a b = fold (\<lambda>(k, v). AList.update k v) b a"

text \<open>
  The loop of \<open>WithIndexPairs\<close>: a pair enters the new map unless the new map has its key
  already.
\<close>

fun collectIndexPairs ::
  "(string \<times> IndexPair) list \<Rightarrow> IndexPair list \<Rightarrow> (string \<times> IndexPair) list" where
  "collectIndexPairs newIndexPairsMap [] = newIndexPairsMap"
| "collectIndexPairs newIndexPairsMap (indexPair # rest) =
     (let indexPairKey = getIndexPairKey indexPair
      in if map_of newIndexPairsMap indexPairKey = None
         then collectIndexPairs (AList.update indexPairKey indexPair newIndexPairsMap) rest
         else collectIndexPairs newIndexPairsMap rest)"

definition WithIndexPairs :: "BulkMigrator \<Rightarrow> IndexPair list \<Rightarrow> BulkMigrator" where
  "WithIndexPairs m indexPairs =
    (if Error m \<noteq> None then m
     else
       let newBulkMigrator =
             \<lparr>ctx = ctx m, SourceES = SourceES m, TargetES = TargetES m,
              Parallelism = Parallelism m, IndexPairMap = IndexPairMap m, Error = Error m,
              ScrollSize = ScrollSize m, ScrollTime = ScrollTime m, SliceSize = SliceSize m,
              BufferCount = BufferCount m, WriteParallel = WriteParallel m,
              WriteSize = WriteSize m, Ids = Ids m, CompareParallel = CompareParallel m\<rparr>;
           newIndexPairsMap = collectIndexPairs [] indexPairs
       in if length newIndexPairsMap > 0
          then newBulkMigrator\<lparr>IndexPairMap :=
                 Assign (IndexPairMap newBulkMigrator) newIndexPairsMap\<rparr>
          else newBulkMigrator)"

definition WithScrollSize :: "BulkMigrator \<Rightarrow> uint \<Rightarrow> BulkMigrator" where
  "WithScrollSize m scrollSize =
    (if Error m \<noteq> None then m
     else
       let scrollSize = (if scrollSize = 0 then defaultScrollSize else scrollSize)
       in \<lparr>ctx = ctx m, SourceES = SourceES m, TargetES = TargetES m,
           Parallelism = Parallelism m, IndexPairMap = IndexPairMap m, Error = Error m,
           ScrollSize = scrollSize, ScrollTime = ScrollTime m, SliceSize = SliceSize m,
           BufferCount = BufferCount m, WriteParallel = WriteParallel m,
           WriteSize = WriteSize m, Ids = Ids m, CompareParallel = CompareParallel m\<rparr>)"

definition WithScrollTime :: "BulkMigrator \<Rightarrow> uint \<Rightarrow> BulkMigrator" where
  "WithScrollTime m scrollTime =
    (if Error m \<noteq> None then m
     else
       let scrollTime = (if scrollTime = 0 then defaultScrollTime else scrollTime)
       in \<lparr>ctx = ctx m, SourceES = SourceES m, TargetES = TargetES m,
           Parallelism = Parallelism m, IndexPairMap = IndexPairMap m, Error = Error m,
           ScrollSize = ScrollSize m, ScrollTime = scrollTime, SliceSize = SliceSize m,
           BufferCount = BufferCount m, WriteParallel = WriteParallel m,
           WriteSize = WriteSize m, Ids = Ids m, CompareParallel = CompareParallel m\<rparr>)"

definition WithSliceSize :: "BulkMigrator \<Rightarrow> uint \<Rightarrow> BulkMigrator" where
  "WithSliceSize m sliceSize =
    (if Error m \<noteq> None then m
     else
       let sliceSize = (if sliceSize = 0 then defaultSliceSize else sliceSize)
       in \<lparr>ctx = ctx m, SourceES = SourceES m, TargetES = TargetES m,
           Parallelism = Parallelism m, IndexPairMap = IndexPairMap m, Error = Error m,
           ScrollSize = ScrollSize m, ScrollTime = ScrollTime m, SliceSize = sliceSize,
           BufferCount = BufferCount m, WriteParallel = WriteParallel m,
           WriteSize = WriteSize m, Ids = Ids m, CompareParallel = CompareParallel m\<rparr>)"

definition WithBufferCount :: "BulkMigrator \<Rightarrow> uint \<Rightarrow> BulkMigrator" where
  "WithBufferCount m bufferCount =
    (if Error m \<noteq> None then m
     else
       let bufferCount = (if bufferCount = 0 then defaultBufferCount else bufferCount)
       in \<lparr>ctx = ctx m, SourceES = SourceES m, TargetES = TargetES m,
           Parallelism = Parallelism m, IndexPairMap = IndexPairMap m, Error = Error m,
           ScrollSize = ScrollSize m, ScrollTime = ScrollTime m, SliceSize = SliceSize m,
           BufferCount = bufferCount, WriteParallel = WriteParallel m,
           WriteSize = WriteSize m, Ids = Ids m, CompareParallel = CompareParallel m\<rparr>)"

definition WithWriteParallel :: "BulkMigrator \<Rightarrow> uint \<Rightarrow> BulkMigrator" where
  "WithWriteParallel m writeParallel =
    (if Error m \<noteq> None then m
     else
       let writeParallel = (if writeParallel = 0 then defaultWriteParallel else writeParallel)
       in \<lparr>ctx = ctx m, SourceES = SourceES m, TargetES = TargetES m,
           Parallelism = Parallelism m, IndexPairMap = IndexPairMap m, Error = Error m,
           ScrollSize = ScrollSize m, ScrollTime = ScrollTime m, SliceSize = SliceSize m,
           BufferCount = BufferCount m, WriteParallel = writeParallel,
           WriteSize = WriteSize m, Ids = Ids m, CompareParallel = CompareParallel m\<rparr>)"

definition WithWriteSize :: "BulkMigrator \<Rightarrow> uint \<Rightarrow> BulkMigrator" where
  "WithWriteSize m writeSize =
    (if Error m \<noteq> None then m
     else
       let writeSize = (if writeSize = 0 then defaultWriteSize else writeSize)
       in \<lparr>ctx = ctx m, SourceES = SourceES m, TargetES = TargetES m,
           Parallelism = Parallelism m, IndexPairMap = IndexPairMap m, Error = Error m,
           ScrollSize = ScrollSize m, ScrollTime = ScrollTime m, SliceSize = SliceSize m,
           BufferCount = BufferCount m, WriteParallel = WriteParallel m,
           WriteSize = writeSize, Ids = Ids m, CompareParallel = CompareParallel m\<rparr>)"

text \<open>
  \<open>filterIndexes(pattern)\<close>. The call \<open>m.SourceES.GetIndexes()\<close> and
  \<open>regexp.Match(pattern, index)\<close> are parameters: \<open>GetIndexes\<close> gives what the adapter
  at an address answers, \<open>Match\<close> the verdict of the regular expression or the error of
  a pattern that does not compile.
\<close>

fun filterLoop ::
  "(string \<Rightarrow> string \<Rightarrow> string + bool) \<Rightarrow> bool \<Rightarrow> string \<Rightarrow> string list \<Rightarrow> string list
   \<Rightarrow> service_error + string list" where
  "filterLoop Match ignoreSystemIndex pattern filteredIndexes [] = Inr filteredIndexes"
| "filterLoop Match ignoreSystemIndex pattern filteredIndexes (index # rest) =
     (if ignoreSystemIndex \<and> HasPrefix index ''.''
      then filterLoop Match ignoreSystemIndex pattern filteredIndexes rest
      else case Match pattern index of
             Inl err \<Rightarrow> Inl (PatternError err)
           | Inr ok \<Rightarrow>
               filterLoop Match ignoreSystemIndex pattern
                 (if ok then filteredIndexes @ [index] else filteredIndexes) rest)"

definition filterIndexes ::
  "(es_ref \<Rightarrow> es_error + string list) \<Rightarrow> (string \<Rightarrow> string \<Rightarrow> string + bool) \<Rightarrow> BulkMigrator
   \<Rightarrow> string \<Rightarrow> service_error + string list" where
  "filterIndexes GetIndexes Match m pattern =
    (let ignoreSystemIndex = CtxIgnoreSystemIndex (ctx m)
     in case GetIndexes (SourceES m) of
          Inl err \<Rightarrow> Inl (AdapterError err)
        | Inr indexes \<Rightarrow> filterLoop Match ignoreSystemIndex pattern [] indexes)"

text \<open>
  The loop of \<open>WithPatternIndexes\<close>: the pair \<open>(index, index)\<close> enters the new map unless
  the builder's map has its key already.
\<close>

fun collectPatternPairs ::
  "(string \<times> IndexPair) list \<Rightarrow> (string \<times> IndexPair) list \<Rightarrow> string list
   \<Rightarrow> (string \<times> IndexPair) list" where
  "collectPatternPairs existing newIndexPairsMap [] = newIndexPairsMap"
| "collectPatternPairs existing newIndexPairsMap (index # rest) =
     (let indexPair = \<lparr>SourceIndex = index, TargetIndex = index\<rparr>;
          newIndexPairKey = getIndexPairKey indexPair
      in if map_of existing newIndexPairKey = None
         then collectPatternPairs existing
                (AList.update newIndexPairKey indexPair newIndexPairsMap) rest
         else collectPatternPairs existing newIndexPairsMap rest)"

text \<open>
  \<open>WithPatternIndexes\<close>, \<open>WithParallelism\<close>, \<open>WithCompareParallelism\<close> and \<open>WithIds\<close>.
  Their struct literals leave fields out; a field left out holds Go's zero value. The
  literal of \<open>WithCompareParallelism\<close> assigns the identifier \<open>compareParallel\<close>, which
  is not the function's parameter \<open>compareParallelism\<close> and is declared nowhere in the
  file: it is a parameter of the model.
\<close>

definition WithPatternIndexes ::
  "(es_ref \<Rightarrow> es_error + string list) \<Rightarrow> (string \<Rightarrow> string \<Rightarrow> string + bool) \<Rightarrow> BulkMigrator
   \<Rightarrow> string \<Rightarrow> BulkMigrator" where
  "WithPatternIndexes GetIndexes Match m pattern =
    (if Error m \<noteq> None then m
     else
       let newBulkMigrator =
             \<lparr>ctx = ctx m, SourceES = SourceES m, TargetES = TargetES m,
              Parallelism = Parallelism m, IndexPairMap = IndexPairMap m, Error = Error m,
              ScrollSize = ScrollSize m, ScrollTime = ScrollTime m, SliceSize = SliceSize m,
              BufferCount = BufferCount m, WriteParallel = WriteParallel m,
              WriteSize = 0, Ids = Ids m, CompareParallel = 0\<rparr>
       in case filterIndexes GetIndexes Match m pattern of
            Inl err \<Rightarrow> newBulkMigrator\<lparr>Error := Some err\<rparr>
          | Inr filtered \<Rightarrow>
              let newIndexPairsMap =
                    collectPatternPairs (IndexPairMap newBulkMigrator) [] filtered
              in if length newIndexPairsMap > 0
                 then newBulkMigrator\<lparr>IndexPairMap :=
                        Assign (IndexPairMap newBulkMigrator) newIndexPairsMap\<rparr>
                 else newBulkMigrator)"

definition WithParallelism :: "BulkMigrator \<Rightarrow> uint \<Rightarrow> BulkMigrator" where
  "WithParallelism m parallelism =
    (if Error m \<noteq> None then m
     else
       let parallelism = (if parallelism = 0 then defaultParallelism else parallelism)
       in \<lparr>ctx = ctx m, SourceES = SourceES m, TargetES = TargetES m,
           Parallelism = parallelism, IndexPairMap = IndexPairMap m, Error = Error m,
           ScrollSize = ScrollSize m, ScrollTime = ScrollTime m, SliceSize = SliceSize m,
           BufferCount = BufferCount m, WriteParallel = WriteParallel m,
           WriteSize = 0, Ids = Ids m, CompareParallel = 0\<rparr>)"

definition WithCompareParallelism :: "uint \<Rightarrow> BulkMigrator \<Rightarrow> uint \<Rightarrow> BulkMigrator" where
  "WithCompareParallelism compareParallel m compareParallelism =
    (if Error m \<noteq> None then m
     else
       let compareParallelism =
             (if compareParallelism = 0 then defaultCompareParallel else compareParallelism)
       in \<lparr>ctx = ctx m, SourceES = SourceES m, TargetES = TargetES m,
           Parallelism = Parallelism m, IndexPairMap = IndexPairMap m, Error = Error m,
           ScrollSize = ScrollSize m, ScrollTime = ScrollTime m, SliceSize = SliceSize m,
           BufferCount = BufferCount m, WriteParallel = WriteParallel m,
           WriteSize = 0, Ids = Ids m, CompareParallel = compareParallel\<rparr>)"

definition WithIds :: "BulkMigrator \<Rightarrow> string list \<Rightarrow> BulkMigrator" where
  "WithIds m ids =
    (if Error m \<noteq> None then m
     else \<lparr>ctx = ctx m, SourceES = SourceES m, TargetES = TargetES m,
           Parallelism = Parallelism m, IndexPairMap = IndexPairMap m, Error = Error m,
           ScrollSize = ScrollSize m, ScrollTime = ScrollTime m, SliceSize = SliceSize m,
           BufferCount = BufferCount m, WriteParallel = WriteParallel m,
           WriteSize = WriteSize m, Ids = ids, CompareParallel = 0\<rparr>)"

text \<open>
  A sequence of \<open>WithIndexPairs\<close> and \<open>WithPatternIndexes\<close> calls on a builder. A pattern
  step carries what the source cluster answers to \<open>GetIndexes\<close> at that call.
\<close>

datatype pair_step =
    StepIndexPairs "IndexPair list"
  | StepPatternIndexes "es_error + string list" string

fun applyPairStep ::
  "(string \<Rightarrow> string \<Rightarrow> string + bool) \<Rightarrow> BulkMigrator \<Rightarrow> pair_step \<Rightarrow> BulkMigrator" where
  "applyPairStep Match m (StepIndexPairs indexPairs) = WithIndexPairs m indexPairs"
| "applyPairStep Match m (StepPatternIndexes answer pattern) =
     WithPatternIndexes (\<lambda>_. answer) Match m pattern"

definition applyPairSteps ::
  "(string \<Rightarrow> string \<Rightarrow> string + bool) \<Rightarrow> BulkMigrator \<Rightarrow> pair_step list \<Rightarrow> BulkMigrator" where
  "applyPairSteps Match m steps = foldl (applyPairStep Match) m steps"

text \<open>
  A pair map holds at most one pair per identity, each under its own identity: the keys
  of the association list are distinct and every entry's key is the key of its pair.
\<close>

definition keyedByIdentity :: "(string \<times> IndexPair) list \<Rightarrow> bool" where
  "keyedByIdentity al =
     (distinct (map fst al) \<and> (\<forall>(k, q) \<in> set al. k = getIndexPairKey q))"

section \<open>JSON values\<close>

text \<open>
  What Go decodes JSON into (\<open>interface{}\<close>: nil, bool, number, string, slice, map) and
  encodes from. A map \<open>map[string]interface{}\<close> is an association list with distinct
  keys; numbers are the integers.
\<close>

datatype json =
    JNull
  | JBool bool
  | JNumber int
  | JString string
  | JArray "json list"
  | JObject "(string \<times> json) list"

section \<open>The typed (V6) cluster adapter\<close>

text \<open>
  Modelled from the spec: the operations \<open>es.OperationCreate\<close>, \<open>es.OperationUpdate\<close>
  and \<open>es.OperationDelete\<close> are constants declared outside the files at hand; the spec
  has a document's operation be one of create, update and delete. \<open>OperationOther\<close>
  stands for every value of the constants' type that is none of the three.
\<close>

datatype operation = OperationCreate | OperationUpdate | OperationDelete | OperationOther nat

text \<open>\<open>es.Doc\<close> with the fields \<open>BulkBody\<close> reads. \<open>Source\<close> is \<open>None\<close> for a nil map.\<close>

record Doc =
  ID :: string
  Type :: string
  Source :: "(string \<times> json) list option"
  Op :: operation

text \<open>A map as a JSON value (nil encodes as null), and Go's \<open>len\<close> of a map.\<close>

definition mapValue :: "(string \<times> json) list option \<Rightarrow> json" where
  "mapValue m = (case m of None \<Rightarrow> JNull | Some kv \<Rightarrow> JObject kv)"

definition mapLen :: "(string \<times> json) list option \<Rightarrow> nat" where
  "mapLen m = (case m of None \<Rightarrow> 0 | Some kv \<Rightarrow> length kv)"

text \<open>
  \<open>V6.BulkBody(index, buf, doc)\<close>. The buffer is modelled by the lines written to it:
  every \<open>buf.Write(json.Marshal(x)); buf.WriteByte('\n')\<close> appends the value \<open>x\<close>. The
  result is the error, or the buffer after the call; on the error nothing was written.
\<close>

definition BulkBody :: "string \<Rightarrow> json list \<Rightarrow> Doc \<Rightarrow> es_error + json list" where
  "BulkBody index buf doc =
    (case (case Op doc of
             OperationCreate \<Rightarrow> Inr (''index'', Source doc)
           | OperationUpdate \<Rightarrow> Inr (''update'', Some [(Type doc, mapValue (Source doc))])
           | OperationDelete \<Rightarrow> Inr (''delete'', None)
           | OperationOther n \<Rightarrow> Inl (UnknownAction n)) of
       Inl err \<Rightarrow> Inl err
     | Inr (action, body) \<Rightarrow>
         (let meta = JObject [(action, JObject [(''_index'', JString index),
                                                 (''_id'', JString (ID doc)),
                                                 (''_type'', JString (Type doc))])];
              buf1 = buf @ [meta]
          in if mapLen body > 0 then Inr (buf1 @ [mapValue body]) else Inr buf1))"

text \<open>The response of the REST client: status and body.\<close>

record response =
  StatusCode :: int
  Body :: string

text \<open>
  Modelled from the spec: \<open>formatError\<close> is declared outside the files at hand; it makes
  of a response the error of kind \<open>CLUSTER_ERROR\<close> carrying the status and the server
  message.
\<close>

definition formatError :: "response \<Rightarrow> es_error" where
  "formatError res = ClusterError (StatusCode res) (Body res)"

text \<open>
  \<open>V6.Bulk\<close>, \<open>V6.CreateIndex\<close>, \<open>V6.IndexExisted\<close>, \<open>V6.DeleteIndex\<close> and
  \<open>V6.ClearScroll\<close>. The call of the REST client is the first argument: it answers a
  transport failure (\<open>Inl\<close>) or a response. The result is Go's \<open>error\<close>, \<open>None\<close> for nil.
\<close>

definition Bulk :: "(json list \<Rightarrow> string + response) \<Rightarrow> json list \<Rightarrow> es_error option" where
  "Bulk ClientBulk buf =
    (case ClientBulk buf of
       Inl err \<Rightarrow> Some (TransportError err)
     | Inr res \<Rightarrow> if StatusCode res \<noteq> 200 then Some (formatError res) else None)"

record IESSettings =
  GetSettings :: "(string \<times> json) list"
  GetMappings :: "(string \<times> json) list"
  GetAliases :: "(string \<times> json) list"
  GetIndex :: string

record IndicesCreateRequest =
  ReqIndex :: string
  ReqBody :: json

definition CreateIndex ::
  "(IndicesCreateRequest \<Rightarrow> string + response) \<Rightarrow> IESSettings \<Rightarrow> es_error option" where
  "CreateIndex Do esSetting =
    (let indexBodyMap =
           Assign (Assign (GetSettings esSetting) (GetMappings esSetting)) (GetAliases esSetting);
         req = \<lparr>ReqIndex = GetIndex esSetting, ReqBody = JObject indexBodyMap\<rparr>
     in case Do req of
          Inl err \<Rightarrow> Some (TransportError err)
        | Inr res \<Rightarrow> if StatusCode res \<noteq> 200 then Some (formatError res) else None)"

definition IndexExisted ::
  "(string list \<Rightarrow> string + response) \<Rightarrow> string \<Rightarrow> bool \<times> es_error option" where
  "IndexExisted Exists indexName =
    (case Exists [indexName] of
       Inl err \<Rightarrow> (False, Some (TransportError err))
     | Inr res \<Rightarrow>
         if StatusCode res = 404 then (False, None)
         else if StatusCode res \<noteq> 200 then (False, Some (formatError res))
         else (StatusCode res = 200, None))"

definition DeleteIndex :: "(string list \<Rightarrow> string + response) \<Rightarrow> string \<Rightarrow> es_error option" where
  "DeleteIndex Delete index =
    (case Delete [index] of
       Inl err \<Rightarrow> Some (TransportError err)
     | Inr res \<Rightarrow> if StatusCode res \<noteq> 200 then Some (formatError res) else None)"

definition ClearScroll :: "(string \<Rightarrow> string + response) \<Rightarrow> string \<Rightarrow> es_error option" where
  "ClearScroll ClientClearScroll scrollId =
    (case ClientClearScroll scrollId of
       Inl err \<Rightarrow> Some (TransportError err)
     | Inr res \<Rightarrow> if StatusCode res \<noteq> 200 then Some (formatError res) else None)"

text \<open>
  \<open>es.ScrollOption\<close> and \<open>es.ScrollResult\<close>. The fields \<open>ScrollSize\<close>, \<open>ScrollTime\<close> and
  \<open>SliceSize\<close> of the option carry the prefix \<open>opt\<close> here, the builder's fields having
  these names; the pointers \<open>SliceId\<close> and \<open>SliceSize\<close> are \<open>None\<close> when nil.
\<close>

record ScrollOption =
  optScrollSize :: uint
  optScrollTime :: uint
  Query :: "(string \<times> json) list"
  SliceId :: "uint option"
  optSliceSize :: "uint option"
  SortFields :: "string list"

record ScrollResult =
  Total :: "64 word"
  Docs :: "Doc list"
  ScrollId :: string

text \<open>The options \<open>NewScroll\<close> hands to the search call.\<close>

record SearchRequest =
  WithIndex :: string
  WithSize :: int
  WithScroll :: "64 word"
  WithBody :: "json option"
  WithSort :: "string list option"

text \<open>
  \<open>V6.NewScroll(ctx, index, option)\<close> for a non-nil \<open>option\<close>. The search call and the
  decoding of a response body into the scroll result are parameters. The slice clause
  reads \<open>*option.SliceId\<close> and \<open>*option.SliceSize\<close> once \<open>SliceId\<close> is not nil.
\<close>

definition NewScroll ::
  "(SearchRequest \<Rightarrow> string + response) \<Rightarrow> (string \<Rightarrow> string + ScrollResult) \<Rightarrow> string
   \<Rightarrow> ScrollOption \<Rightarrow> (es_error + ScrollResult) outcome" where
  "NewScroll Search Decode index option =
    (let query = Query option
     in case (case SliceId option of
                None \<Rightarrow> Returned query
              | Some sliceId \<Rightarrow>
                  (case optSliceSize option of
                     None \<Rightarrow> Panic
                   | Some sliceSize \<Rightarrow>
                       Returned (AList.update ''slice''
                         (JObject [(''field'', JString ''_id''),
                                   (''id'', JNumber (uint sliceId)),
                                   (''max'', JNumber (uint sliceSize))]) query))) of
          Panic \<Rightarrow> Panic
        | Fatal \<Rightarrow> Fatal
        | Returned query \<Rightarrow>
            (let req = \<lparr>WithIndex = index,
                        WithSize = sint (optScrollSize option),
                        WithScroll = optScrollTime option * 60000000000,
                        WithBody = (if length query > 0 then Some (JObject query) else None),
                        WithSort = (if length (SortFields option) > 0
                                    then Some (SortFields option) else None)\<rparr>
             in case Search req of
                  Inl err \<Rightarrow> Returned (Inl (TransportError err))
                | Inr res \<Rightarrow>
                    if StatusCode res \<noteq> 200 then Returned (Inl (formatError res))
                    else (case Decode (Body res) of
                            Inl err \<Rightarrow> Returned (Inl (DecodeError err))
                          | Inr scrollResult \<Rightarrow> Returned (Inr scrollResult))))"

text \<open>
  \<open>strings.Fields(s)\<close>: the maximal runs of bytes of \<open>s\<close> between its white space, where
  white space is every rune \<open>unicode.IsSpace\<close> accepts. A Go string holds UTF-8:
  \<open>spaceRunes\<close> lists the encodings of these runes (U+0009 to U+000D, U+0020, U+0085,
  U+00A0, U+1680, U+2000 to U+200A, U+2028, U+2029, U+202F, U+205F, U+3000). None of
  them starts with a continuation byte, so each occurrence in the bytes is a rune of the
  string; every other rune, and every byte that is no valid UTF-8, belongs to a field.
  \<open>spaceWidth\<close> is the number of bytes of the white space rune a string starts with, or
  0; \<open>FieldsAcc\<close> carries the bytes of the field it is in and the number of bytes of a
  white space rune still to pass over.
\<close>

definition spaceRunes :: "string list" where
  "spaceRunes =
    [[CHR 0x09], [CHR 0x0A], [CHR 0x0B], [CHR 0x0C], [CHR 0x0D], [CHR 0x20],
     [CHR 0xC2, CHR 0x85], [CHR 0xC2, CHR 0xA0],
     [CHR 0xE1, CHR 0x9A, CHR 0x80],
     [CHR 0xE2, CHR 0x80, CHR 0x80], [CHR 0xE2, CHR 0x80, CHR 0x81],
     [CHR 0xE2, CHR 0x80, CHR 0x82], [CHR 0xE2, CHR 0x80, CHR 0x83],
     [CHR 0xE2, CHR 0x80, CHR 0x84], [CHR 0xE2, CHR 0x80, CHR 0x85],
     [CHR 0xE2, CHR 0x80, CHR 0x86], [CHR 0xE2, CHR 0x80, CHR 0x87],
     [CHR 0xE2, CHR 0x80, CHR 0x88], [CHR 0xE2, CHR 0x80, CHR 0x89],
     [CHR 0xE2, CHR 0x80, CHR 0x8A],
     [CHR 0xE2, CHR 0x80, CHR 0xA8], [CHR 0xE2, CHR 0x80, CHR 0xA9],
     [CHR 0xE2, CHR 0x80, CHR 0xAF],
     [CHR 0xE2, CHR 0x81, CHR 0x9F],
     [CHR 0xE3, CHR 0x80, CHR 0x80]]"

definition spaceWidth :: "string \<Rightarrow> nat" where
  "spaceWidth s =
     (case find (\<lambda>r. take (length r) s = r) spaceRunes of
        None \<Rightarrow> 0
      | Some r \<Rightarrow> length r)"

fun FieldsAcc :: "string \<Rightarrow> nat \<Rightarrow> string \<Rightarrow> string list" where
  "FieldsAcc cur skip [] = (if cur = [] then [] else [cur])"
| "FieldsAcc cur skip (c # cs) =
     (if skip > 0 then FieldsAcc cur (skip - 1) cs
      else if spaceWidth (c # cs) > 0 then
        (if cur = [] then FieldsAcc [] (spaceWidth (c # cs) - 1) cs
         else cur # FieldsAcc [] (spaceWidth (c # cs) - 1) cs)
      else FieldsAcc (cur @ [c]) 0 cs)"

definition stringsFields :: "string \<Rightarrow> string list" where
  "stringsFields s = FieldsAcc [] 0 s"

text \<open>
  The lines a \<open>bufio.Scanner\<close> yields with its default split function
  \<open>bufio.ScanLines\<close>: the text up to each line feed, without one carriage return at its
  end; the text after the last line feed is a line unless it is empty. \<open>scanBody\<close> is the
  run of the scanner on a body that is read without error and whose lines fit the
  scanner's buffer: these lines, and no error.
\<close>

definition dropCR :: "string \<Rightarrow> string" where
  "dropCR l = (if l \<noteq> [] \<and> last l = CHR 0x0D then butlast l else l)"

fun scanLinesAcc :: "string \<Rightarrow> string \<Rightarrow> string list" where
  "scanLinesAcc cur [] = (if cur = [] then [] else [dropCR cur])"
| "scanLinesAcc cur (c # cs) =
     (if c = CHR 0x0A then dropCR cur # scanLinesAcc [] cs else scanLinesAcc (cur @ [c]) cs)"

definition scanBody :: "string \<Rightarrow> string list \<times> string option" where
  "scanBody body = (scanLinesAcc [] body, None)"

text \<open>
  \<open>V6.GetIndexes()\<close>. The answer of \<open>es.Client.Cat.Indices()\<close> is the last argument.
  The library functions the loop calls are parameters: \<open>Fields\<close> stands for
  \<open>strings.Fields\<close> (\<open>stringsFields\<close> above), \<open>Scan\<close> for the run of the scanner on a
  response body, the lines it yields and the error \<open>scanner.Err()\<close> reports after them
  (\<open>scanBody\<close> above). The loop appends \<open>segments[2]\<close> of every line.
\<close>

fun indicesLoop ::
  "(string \<Rightarrow> string list) \<Rightarrow> string list \<Rightarrow> string list \<Rightarrow> string list option" where
  "indicesLoop Fields indices [] = Some indices"
| "indicesLoop Fields indices (line # rest) =
     (let segments = Fields line
      in if length segments \<le> 2 then None
         else indicesLoop Fields (indices @ [segments ! 2]) rest)"

definition GetIndexes ::
  "(string \<Rightarrow> string list) \<Rightarrow> (string \<Rightarrow> string list \<times> string option)
   \<Rightarrow> (string + response) \<Rightarrow> (es_error + string list) outcome" where
  "GetIndexes Fields Scan answer =
    (case answer of
       Inl err \<Rightarrow> Fatal
     | Inr res \<Rightarrow>
         if StatusCode res \<noteq> 200 then Returned (Inl (formatError res))
         else (case Scan (Body res) of
                 (lines, scanErr) \<Rightarrow>
                   (case indicesLoop Fields [] lines of
                      None \<Rightarrow> Panic
                    | Some indices \<Rightarrow>
                        (case scanErr of
                           Some err \<Rightarrow> Returned (Inl (ScanError err))
                         | None \<Rightarrow> Returned (Inr indices)))))"

text \<open>
  The other operations of the adapter that call the cluster: \<open>V6.NextScroll\<close>,
  \<open>V6.GetIndexAliases\<close>, \<open>V6.GetIndexMapping\<close>, \<open>V6.GetIndexSettings\<close>, \<open>V6.Count\<close>,
  \<open>V6.CreateTemplate\<close>, \<open>V6.ClusterHealth\<close> and \<open>V6.GetInfo\<close>. The call of the REST
  client is a parameter, as above; so is \<open>Decode\<close>, the reading and decoding of a
  response body, which gives the decoded value or the error of the reader or decoder. A
  decoded \<open>map[string]interface{}\<close> is an association list. \<open>ToUint64\<close> stands for
  \<open>cast.ToUint64\<close> on the entry \<open>count\<close> of the decoded map.
\<close>

definition NextScroll ::
  "(string \<Rightarrow> 64 word \<Rightarrow> string + response) \<Rightarrow> (string \<Rightarrow> string + ScrollResult) \<Rightarrow> string
   \<Rightarrow> uint \<Rightarrow> es_error + ScrollResult" where
  "NextScroll ClientScroll Decode scrollId scrollTime =
    (case ClientScroll scrollId (scrollTime * 60000000000) of
       Inl err \<Rightarrow> Inl (TransportError err)
     | Inr res \<Rightarrow>
         if StatusCode res \<noteq> 200 then Inl (formatError res)
         else (case Decode (Body res) of
                 Inl err \<Rightarrow> Inl (DecodeError err)
               | Inr scrollResult \<Rightarrow> Inr scrollResult))"

definition GetIndexAliases ::
  "(string \<Rightarrow> string + response) \<Rightarrow> (string \<Rightarrow> string + (string \<times> json) list) \<Rightarrow> string
   \<Rightarrow> es_error + (string \<times> json) list" where
  "GetIndexAliases GetAlias Decode index =
    (case GetAlias index of
       Inl err \<Rightarrow> Inl (TransportError err)
     | Inr res \<Rightarrow>
         if StatusCode res \<noteq> 200 then Inl (formatError res)
         else (case Decode (Body res) of
                 Inl err \<Rightarrow> Inl (DecodeError err)
               | Inr indexAliases \<Rightarrow> Inr indexAliases))"

definition GetIndexMapping ::
  "(string \<Rightarrow> string + response) \<Rightarrow> (string \<Rightarrow> string + (string \<times> json) list) \<Rightarrow> string
   \<Rightarrow> es_error + (string \<times> json) list" where
  "GetIndexMapping GetMapping Decode index =
    (case GetMapping index of
       Inl err \<Rightarrow> Inl (TransportError err)
     | Inr res \<Rightarrow>
         if StatusCode res \<noteq> 200 then Inl (formatError res)
         else (case Decode (Body res) of
                 Inl err \<Rightarrow> Inl (DecodeError err)
               | Inr indexMapping \<Rightarrow> Inr indexMapping))"

definition GetIndexSettings ::
  "(string \<Rightarrow> string + response) \<Rightarrow> (string \<Rightarrow> string + (string \<times> json) list) \<Rightarrow> string
   \<Rightarrow> es_error + (string \<times> json) list" where
  "GetIndexSettings ClientGetSettings Decode index =
    (case ClientGetSettings index of
       Inl err \<Rightarrow> Inl (TransportError err)
     | Inr res \<Rightarrow>
         if StatusCode res \<noteq> 200 then Inl (formatError res)
         else (case Decode (Body res) of
                 Inl err \<Rightarrow> Inl (DecodeError err)
               | Inr indexSetting \<Rightarrow> Inr indexSetting))"

definition Count ::
  "(string \<Rightarrow> string + response) \<Rightarrow> (string \<Rightarrow> string + (string \<times> json) list)
   \<Rightarrow> (json option \<Rightarrow> 64 word) \<Rightarrow> string \<Rightarrow> es_error + 64 word" where
  "Count ClientCount Decode ToUint64 index =
    (case ClientCount index of
       Inl err \<Rightarrow> Inl (TransportError err)
     | Inr res \<Rightarrow>
         if StatusCode res \<noteq> 200 then Inl (formatError res)
         else (case Decode (Body res) of
                 Inl err \<Rightarrow> Inl (DecodeError err)
               | Inr countResult \<Rightarrow> Inr (ToUint64 (map_of countResult ''count''))))"

definition CreateTemplate ::
  "(string \<Rightarrow> json \<Rightarrow> string + response) \<Rightarrow> string \<Rightarrow> (string \<times> json) list
   \<Rightarrow> es_error option" where
  "CreateTemplate PutTemplate name body =
    (case PutTemplate name (JObject body) of
       Inl err \<Rightarrow> Some (TransportError err)
     | Inr res \<Rightarrow> if StatusCode res \<noteq> 200 then Some (formatError res) else None)"

definition ClusterHealth ::
  "(string + response) \<Rightarrow> (string \<Rightarrow> string + (string \<times> json) list)
   \<Rightarrow> es_error + (string \<times> json) list" where
  "ClusterHealth answer Decode =
    (case answer of
       Inl err \<Rightarrow> Inl (TransportError err)
     | Inr res \<Rightarrow>
         if StatusCode res \<noteq> 200 then Inl (formatError res)
         else (case Decode (Body res) of
                 Inl err \<Rightarrow> Inl (DecodeError err)
               | Inr clusterHealthResp \<Rightarrow> Inr clusterHealthResp))"

definition GetInfo ::
  "(string + response) \<Rightarrow> (string \<Rightarrow> string + (string \<times> json) list)
   \<Rightarrow> es_error + (string \<times> json) list" where
  "GetInfo answer Decode =
    (case answer of
       Inl err \<Rightarrow> Inl (TransportError err)
     | Inr res \<Rightarrow>
         if StatusCode res \<noteq> 200 then Inl (formatError res)
         else (case Decode (Body res) of
                 Inl err \<Rightarrow> Inl (DecodeError err)
               | Inr clusterHealthResp \<Rightarrow> Inr clusterHealthResp))"

text \<open>
  \<open>V6.GetIndexMappingAndSetting(index)\<close>: the existence test, then the settings, the
  mapping and the aliases, the first error ending the call; nil when the index does not
  exist. The results of its four steps are the arguments; \<open>NewV6Settings\<close>, declared
  outside the files at hand, is a parameter.
\<close>

definition GetIndexMappingAndSetting ::
  "((string \<times> json) list \<Rightarrow> (string \<times> json) list \<Rightarrow> (string \<times> json) list \<Rightarrow> string \<Rightarrow> 's)
   \<Rightarrow> bool \<times> es_error option \<Rightarrow> es_error + (string \<times> json) list
   \<Rightarrow> es_error + (string \<times> json) list \<Rightarrow> es_error + (string \<times> json) list \<Rightarrow> string
   \<Rightarrow> es_error + 's option" where
  "GetIndexMappingAndSetting NewV6Settings existed settings mappings aliases index =
    (case existed of
       (exists, Some err) \<Rightarrow> Inl err
     | (exists, None) \<Rightarrow>
         if \<not> exists then Inr None
         else (case settings of
                 Inl err \<Rightarrow> Inl err
               | Inr setting \<Rightarrow>
                   (case mappings of
                      Inl err \<Rightarrow> Inl err
                    | Inr mapping \<Rightarrow>
                        (case aliases of
                           Inl err \<Rightarrow> Inl err
                         | Inr aliases' \<Rightarrow>
                             Inr (Some (NewV6Settings setting mapping aliases' index))))))"

section \<open>The gateway's payload rewrites\<close>

text \<open>
  \<open>ESGateway\<close>, with the adapters it holds (the fields carry the prefix \<open>gw\<close> here, the
  builder's fields having the names \<open>SourceES\<close> and \<open>TargetES\<close>).
  \<open>es.ClusterVersionGte7\<close> is declared outside the files at hand: it is a parameter of
  the functions below, telling of the adapter at an address whether its cluster is of
  major version 7 or above.
\<close>

record ESGateway =
  gwSourceES :: es_ref
  gwTargetES :: es_ref
  gwMasterES :: es_ref
  gwSlaveES :: es_ref

text \<open>
  Modelled from the spec: \<open>utils.GetValueFromMapByPath\<close> and
  \<open>utils.SetValueFromMapByPath\<close> are declared outside the files at hand. The spec has the
  gateway read the total at the path \<open>hits.total\<close> (\<open>hits.total.value\<close>) of the response
  and has the response carry it at \<open>hit.total\<close>, the rest of the payload preserved: the
  path is split at its dots; the lookup descends through the nested objects and finds
  nothing where a key is missing; the store puts the value under the last key, inside the
  nested objects of the keys before it, making an object where there is none. The
  handler below takes the two functions as parameters; these two stand in for them in
  examples only.
\<close>

fun getByPath :: "string list \<Rightarrow> json \<Rightarrow> json option" where
  "getByPath [] v = Some v"
| "getByPath (key # keys) (JObject m) =
     (case map_of m key of None \<Rightarrow> None | Some v \<Rightarrow> getByPath keys v)"
| "getByPath (key # keys) v = None"

definition GetValueFromMapByPath :: "(string \<times> json) list \<Rightarrow> string \<Rightarrow> json option" where
  "GetValueFromMapByPath m path = getByPath (Split path (CHR ''.'')) (JObject m)"

fun setByPath :: "string list \<Rightarrow> json \<Rightarrow> (string \<times> json) list \<Rightarrow> (string \<times> json) list" where
  "setByPath [] v m = m"
| "setByPath [key] v m = AList.update key v m"
| "setByPath (key # key' # keys) v m =
     AList.update key
       (JObject (setByPath (key' # keys) v
          (case map_of m key of Some (JObject sub) \<Rightarrow> sub | _ \<Rightarrow> []))) m"

definition SetValueFromMapByPath ::
  "(string \<times> json) list \<Rightarrow> string \<Rightarrow> json \<Rightarrow> (string \<times> json) list" where
  "SetValueFromMapByPath m path v = setByPath (Split path (CHR ''.'')) v m"

text \<open>Go's nil for a lookup that found nothing (the second result is dropped).\<close>

definition valueOrNil :: "json option \<Rightarrow> json" where
  "valueOrNil r = (case r of None \<Rightarrow> JNull | Some v \<Rightarrow> v)"

text \<open>
  An \<open>http.Header\<close> is a map from a key to its values, an association list here. The
  loop of \<open>proxy\<close> over the header of the master's response: for every value of every
  key, \<open>header.Del(key)\<close> when the value is empty, then \<open>header.Set(key, value)\<close>. The
  keys of a response header are in canonical form, which \<open>Set\<close> and \<open>Del\<close> keep.
\<close>

definition proxyHeaderValue ::
  "string \<Rightarrow> string \<Rightarrow> (string \<times> string list) list \<Rightarrow> (string \<times> string list) list" where
  "proxyHeaderValue key value header =
     AList.update key [value] (if value = [] then AList.delete key header else header)"

definition proxyHeader :: "(string \<times> string list) list \<Rightarrow> (string \<times> string list) list" where
  "proxyHeader respHeader =
     fold (\<lambda>(key, values) header. fold (proxyHeaderValue key) values header) respHeader []"

text \<open>
  gin's \<open>c.Header(key, value)\<close> on the header of the client's response: it removes the
  key when the value is empty and sets the key to the value otherwise.
\<close>

definition ginHeader ::
  "string \<Rightarrow> string \<Rightarrow> (string \<times> string list) list \<Rightarrow> (string \<times> string list) list" where
  "ginHeader key value header =
     (if value = [] then AList.delete key header else AList.update key [value] header)"

text \<open>
  What the handler has done to the client's response when it returns: the header it has
  set, and the status and the value it has handed to \<open>c.JSON\<close>. gin encodes that value
  and writes the bytes through the response writer of \<open>net/http\<close>, which sends the header
  first and refuses a body longer than a \<open>Content-Length\<close> the header declares.
\<close>

record answer =
  ansHeader :: "(string \<times> string list) list"
  ansStatus :: int
  ansBody :: json

text \<open>
  The end of \<open>ESGateway.onHandler\<close>, from the return of the proxied master request on:
  \<open>Inl\<close> is the error of \<open>proxy\<close>, \<open>Inr\<close> its header, its status code and its body as
  gjson parses it. The client's response has no header of its own before. \<open>Get\<close> and
  \<open>Set\<close> stand for \<open>utils.GetValueFromMapByPath\<close> and \<open>utils.SetValueFromMapByPath\<close>
  (\<open>Set\<close> gives the map after the store). The type assertion on a body that is no
  object panics.
\<close>

definition onHandler ::
  "(es_ref \<Rightarrow> bool) \<Rightarrow> ((string \<times> json) list \<Rightarrow> string \<Rightarrow> json option)
   \<Rightarrow> ((string \<times> json) list \<Rightarrow> string \<Rightarrow> json \<Rightarrow> (string \<times> json) list) \<Rightarrow> ESGateway
   \<Rightarrow> (string + (string \<times> string list) list \<times> int \<times> json) \<Rightarrow> answer outcome" where
  "onHandler ClusterVersionGte7 Get Set gateway proxied =
    (case proxied of
       Inl err \<Rightarrow>
         Returned \<lparr>ansHeader = [], ansStatus = 500,
                   ansBody = JObject [(''message'', JString err)]\<rparr>
     | Inr (header, statusCode, body) \<Rightarrow>
         (let clientHeader =
                fold (\<lambda>(key, values) h. fold (ginHeader key) values h) header []
          in case body of
            JObject bodyMap \<Rightarrow>
              (if gwMasterES gateway \<noteq> gwSourceES gateway \<and> statusCode = 200 then
                 (let bodyMap1 =
                        (if ClusterVersionGte7 (gwMasterES gateway)
                            \<and> \<not> ClusterVersionGte7 (gwSourceES gateway)
                         then (let totalValue = valueOrNil (Get bodyMap ''hits.total.value'')
                               in Set bodyMap ''hit.total'' totalValue)
                         else bodyMap);
                      bodyMap2 =
                        (if \<not> ClusterVersionGte7 (gwMasterES gateway)
                            \<and> ClusterVersionGte7 (gwSourceES gateway)
                         then (let totalValue = valueOrNil (Get bodyMap1 ''hits.total'')
                               in Set bodyMap1 ''hit.total''
                                    (JObject [(''value'', totalValue),
                                              (''relation'', JString ''eq'')]))
                         else bodyMap1)
                  in Returned \<lparr>ansHeader = clientHeader, ansStatus = statusCode,
                               ansBody = JObject bodyMap2\<rparr>)
               else Returned \<lparr>ansHeader = clientHeader, ansStatus = statusCode,
                             ansBody = JObject bodyMap\<rparr>)
          | _ \<Rightarrow> Panic))"

text \<open>
  The loop of \<open>modifyMappings\<close> over the keys of the mappings: the first key that is not
  \<open>properties\<close>, in the order the map is iterated (the order of the association list),
  or the empty string.
\<close>

fun firstTypeName :: "(string \<times> json) list \<Rightarrow> string" where
  "firstTypeName [] = []"
| "firstTypeName ((key, v) # rest) =
     (if key \<noteq> ''properties'' then key else firstTypeName rest)"

text \<open>
  \<open>ESGateway.modifyMappings\<close>. The request body is \<open>None\<close> when it is no JSON text; the
  result is the error, or the body the request carries after the call.
  \<open>json.Unmarshal\<close> into a map accepts an object and null (a nil map) and refuses every
  other value.
\<close>

definition modifyMappings ::
  "(es_ref \<Rightarrow> bool) \<Rightarrow> ESGateway \<Rightarrow> json option \<Rightarrow> (gateway_error + json option) outcome" where
  "modifyMappings ClusterVersionGte7 gateway body =
    (if ClusterVersionGte7 (gwMasterES gateway) = ClusterVersionGte7 (gwSlaveES gateway)
     then Returned (Inr body)
     else case body of
        None \<Rightarrow> Returned (Inl UnmarshalError)
      | Some JNull \<Rightarrow> Returned (Inl InvalidMappingsFormat)
      | Some (JObject data) \<Rightarrow>
          (case map_of data ''mappings'' of
             Some (JObject mappings) \<Rightarrow>
               (let typeName = firstTypeName mappings
                in if typeName \<noteq> [] then
                     (case map_of mappings typeName of
                        Some (JObject typeMapping) \<Rightarrow>
                          (case map_of typeMapping ''properties'' of
                             None \<Rightarrow> Returned (Inl InvalidPropertiesFormat)
                           | Some properties \<Rightarrow>
                               Returned (Inr (Some (JObject (AList.update ''mappings''
                                 (JObject (AList.delete typeName
                                    (AList.update ''properties'' properties mappings)))
                                 data)))))
                      | _ \<Rightarrow> Panic)
                   else
                     (case map_of mappings ''properties'' of
                        None \<Rightarrow> Returned (Inl InvalidPropertiesFormat)
                      | Some properties \<Rightarrow>
                          Returned (Inr (Some (JObject (AList.update ''mappings''
                            (JObject (AList.delete ''properties''
                               (AList.update ''doc''
                                  (JObject [(''properties'', properties)]) mappings)))
                            data))))))
           | _ \<Rightarrow> Returned (Inl InvalidMappingsFormat))
      | Some _ \<Rightarrow> Returned (Inl UnmarshalError))"

section \<open>Properties of the URI classifier\<close>

lemma length_SplitAcc: "length (SplitAcc sep acc s) = Suc (count_list s sep)"
  by (induction s arbitrary: acc) auto

lemma Split_without_separator: "sep \<notin> set p \<Longrightarrow> length (Split p sep) = 1"
  unfolding Split_def length_SplitAcc by (simp add: count_list_0_iff)

lemma HasSuffix_iff_suffix: "HasSuffix s p \<longleftrightarrow> suffix p s"
proof
  assume "HasSuffix s p"
  then have "drop (length s - length p) s = p" by (simp add: HasSuffix_def)
  then have "s = take (length s - length p) s @ p" by (metis append_take_drop_id)
  then show "suffix p s" unfolding suffix_def by blast
next
  assume "suffix p s"
  then obtain q where "s = q @ p" unfolding suffix_def by blast
  then show "HasSuffix s p" by (simp add: HasSuffix_def)
qed

lemma create_needs_reversed_test:
  "actionOf (parseUriPath m p cv) = Some RequestActionCreateDocument
   \<Longrightarrow> HasSuffix ''/_create'' p \<and> m = ''POST''"
  unfolding parseUriPath_def actionOf_def Let_def
  by (auto split: if_splits)

lemma update_needs_reversed_test:
  "actionOf (parseUriPath m p cv) = Some RequestActionUpdateDocument
   \<Longrightarrow> HasSuffix ''/_update'' p \<and> \<not> HasSuffix ''/_create'' p \<and> m = ''POST''"
  unfolding parseUriPath_def actionOf_def Let_def
  by (auto split: if_splits)

lemma suffixes_of_create:
  "HasSuffix ''/_create'' p \<Longrightarrow>
   p \<in> {''/_create'', ''_create'', ''create'', ''reate'', ''eate'', ''ate'', ''te'', ''e'', []}"
  unfolding HasSuffix_iff_suffix in_set_suffixes[symmetric] by auto

lemma suffixes_of_update:
  "HasSuffix ''/_update'' p \<Longrightarrow>
   p \<in> {''/_update'', ''_update'', ''update'', ''pdate'', ''date'', ''ate'', ''te'', ''e'', []}"
  unfolding HasSuffix_iff_suffix in_set_suffixes[symmetric] by auto

lemma parseUriPath_create_literal:
  "parseUriPath ''POST'' ''/_create'' cv =
   Returned (\<lparr>HttpAction = ''POST'', Uri = ''/_create'',
               RequestAction = RequestActionCreateDocument, Index = ''_create'',
               IndexType = [], DocumentId = []\<rparr>, None)"
  by (simp add: parseUriPath_def HasSuffix_def Split_def Let_def)

lemma parseUriPath_update_literal:
  "parseUriPath ''POST'' ''/_update'' cv =
   Returned (\<lparr>HttpAction = ''POST'', Uri = ''/_update'',
               RequestAction = RequestActionUpdateDocument, Index = ''_update'',
               IndexType = [], DocumentId = []\<rparr>, None)"
  by (simp add: parseUriPath_def HasSuffix_def Split_def Let_def)

lemma create_action_iff:
  "actionOf (parseUriPath m p cv) = Some RequestActionCreateDocument
   \<longleftrightarrow> p = ''/_create'' \<and> m = ''POST''"
proof
  assume a: "actionOf (parseUriPath m p cv) = Some RequestActionCreateDocument"
  then have h: "HasSuffix ''/_create'' p" and m: "m = ''POST''"
    using create_needs_reversed_test by blast+
  have "p = ''/_create''"
  proof (rule ccontr)
    assume n: "p \<noteq> ''/_create''"
    with suffixes_of_create[OF h] have "CHR ''/'' \<notin> set p" by auto
    then have "length (Split p (CHR ''/'')) = 1" by (rule Split_without_separator)
    moreover from n suffixes_of_create[OF h] have "p \<noteq> ''/''" by auto
    ultimately have "parseUriPath m p cv = Panic" using h
      by (simp add: parseUriPath_def Let_def)
    with a show False by (simp add: actionOf_def)
  qed
  with m show "p = ''/_create'' \<and> m = ''POST''" by simp
next
  assume "p = ''/_create'' \<and> m = ''POST''"
  then show "actionOf (parseUriPath m p cv) = Some RequestActionCreateDocument"
    by (simp add: parseUriPath_create_literal actionOf_def)
qed

lemma update_action_iff:
  "actionOf (parseUriPath m p cv) = Some RequestActionUpdateDocument
   \<longleftrightarrow> p = ''/_update'' \<and> m = ''POST''"
proof
  assume a: "actionOf (parseUriPath m p cv) = Some RequestActionUpdateDocument"
  then have h: "HasSuffix ''/_update'' p" and c: "\<not> HasSuffix ''/_create'' p"
    and m: "m = ''POST''"
    using update_needs_reversed_test by blast+
  have "p = ''/_update''"
  proof (rule ccontr)
    assume n: "p \<noteq> ''/_update''"
    with suffixes_of_update[OF h] have "CHR ''/'' \<notin> set p" by auto
    then have "length (Split p (CHR ''/'')) = 1" by (rule Split_without_separator)
    moreover from n suffixes_of_update[OF h] have "p \<noteq> ''/''" by auto
    ultimately have "parseUriPath m p cv = Panic" using h c
      by (simp add: parseUriPath_def Let_def)
    with a show False by (simp add: actionOf_def)
  qed
  with m show "p = ''/_update'' \<and> m = ''POST''" by simp
next
  assume "p = ''/_update'' \<and> m = ''POST''"
  then show "actionOf (parseUriPath m p cv) = Some RequestActionUpdateDocument"
    by (simp add: parseUriPath_update_literal actionOf_def)
qed

text \<open>
  Claim C1. The classifier tests \<open>strings.HasSuffix("/_create", uriPath)\<close>, the
  arguments reversed. On every path \<open>/{index}/{type}/{id}/_create\<close> and on every path
  \<open>/{index}/{id}/_update\<close> (whatever the segments are) the test is false, and the call,
  for every HTTP method and cluster version, returns with an action that is neither
  create-document nor update-document. The test holds exactly of the paths that are a
  suffix of the literal \<open>/_create\<close> (of \<open>/_update\<close>); of those only the literal itself,
  under POST, is classified as create-document (as update-document).
\<close>

theorem reversed_suffix_test_misses_document_paths:
  "\<not> HasSuffix ''/_create'' (''/'' @ index @ ''/'' @ ty @ ''/'' @ docId @ ''/_create'')
   \<and> \<not> HasSuffix ''/_update'' (''/'' @ index @ ''/'' @ docId @ ''/_update'')
   \<and> actionOf (parseUriPath m (''/'' @ index @ ''/'' @ ty @ ''/'' @ docId @ ''/_create'') cv)
       \<noteq> Some RequestActionCreateDocument
   \<and> actionOf (parseUriPath m (''/'' @ index @ ''/'' @ ty @ ''/'' @ docId @ ''/_create'') cv)
       \<noteq> Some RequestActionUpdateDocument
   \<and> actionOf (parseUriPath m (''/'' @ index @ ''/'' @ docId @ ''/_update'') cv)
       \<noteq> Some RequestActionCreateDocument
   \<and> actionOf (parseUriPath m (''/'' @ index @ ''/'' @ docId @ ''/_update'') cv)
       \<noteq> Some RequestActionUpdateDocument
   \<and> actionOf (parseUriPath m (''/'' @ index @ ''/'' @ ty @ ''/'' @ docId @ ''/_create'') cv)
       \<noteq> None
   \<and> actionOf (parseUriPath m (''/'' @ index @ ''/'' @ docId @ ''/_update'') cv) \<noteq> None
   \<and> HasSuffix ''/_create'' p = suffix p ''/_create''
   \<and> HasSuffix ''/_update'' p = suffix p ''/_update''
   \<and> (actionOf (parseUriPath m p cv) = Some RequestActionCreateDocument)
       = (p = ''/_create'' \<and> m = ''POST'')
   \<and> (actionOf (parseUriPath m p cv) = Some RequestActionUpdateDocument)
       = (p = ''/_update'' \<and> m = ''POST'')"
proof -
  let ?c = "''/'' @ index @ ''/'' @ ty @ ''/'' @ docId @ ''/_create''"
  let ?u = "''/'' @ index @ ''/'' @ docId @ ''/_update''"
  have c1: "\<not> HasSuffix ''/_create'' ?c" and c2: "\<not> HasSuffix ''/_update'' ?c"
    and u1: "\<not> HasSuffix ''/_create'' ?u" and u2: "\<not> HasSuffix ''/_update'' ?u"
    and c3: "\<not> HasSuffix ''/_search'' ?c" and u3: "\<not> HasSuffix ''/_search'' ?u"
    by (simp_all add: HasSuffix_def)
  have lc: "length (Split ?c (CHR ''/'')) \<ge> 5" and lu: "length (Split ?u (CHR ''/'')) \<ge> 4"
    unfolding Split_def length_SplitAcc by simp_all
  have mc: "\<not> HasSuffix ?c ''/_mapping''" "\<not> HasSuffix ?c ''/_settings''"
           "\<not> HasSuffix ?c ''/_bulk''"
    and mu: "\<not> HasSuffix ?u ''/_mapping''" "\<not> HasSuffix ?u ''/_settings''"
            "\<not> HasSuffix ?u ''/_bulk''"
    unfolding HasSuffix_iff_suffix suffix_def by auto
  have nc: "actionOf (parseUriPath m ?c cv) \<noteq> None"
    using c1 c2 c3 mc lc unfolding parseUriPath_def actionOf_def Let_def
    by (simp split: if_splits)
  have nu: "actionOf (parseUriPath m ?u cv) \<noteq> None"
    using u1 u2 u3 mu lu unfolding parseUriPath_def actionOf_def Let_def
    by (simp split: if_splits)
  have ac: "actionOf (parseUriPath m ?c cv) \<noteq> Some RequestActionCreateDocument"
    using create_action_iff[of m ?c cv] by simp
  have ac': "actionOf (parseUriPath m ?c cv) \<noteq> Some RequestActionUpdateDocument"
    using update_action_iff[of m ?c cv] by simp
  have au: "actionOf (parseUriPath m ?u cv) \<noteq> Some RequestActionCreateDocument"
    using create_action_iff[of m ?u cv] by simp
  have au': "actionOf (parseUriPath m ?u cv) \<noteq> Some RequestActionUpdateDocument"
    using update_action_iff[of m ?u cv] by simp
  show ?thesis
    using c1 u2 ac ac' au au' nc nu HasSuffix_iff_suffix[of "''/_create''" p]
      HasSuffix_iff_suffix[of "''/_update''" p] create_action_iff[of m p cv]
      update_action_iff[of m p cv]
    by blast
qed

section \<open>Properties of the configuration builder\<close>

lemma set_update_subset: "set (AList.update k v al) \<subseteq> insert (k, v) (set al)"
  by (induction al) auto

lemma keyed_update: "keyedByIdentity al \<Longrightarrow> keyedByIdentity (AList.update (getIndexPairKey q) q al)"
  unfolding keyedByIdentity_def using set_update_subset[of "getIndexPairKey q" q al]
  by (auto simp: distinct_update)

lemma keyed_collectIndexPairs: "keyedByIdentity acc \<Longrightarrow> keyedByIdentity (collectIndexPairs acc ps)"
  by (induction ps arbitrary: acc) (auto simp: Let_def keyed_update)

lemma keyed_collectPatternPairs: "keyedByIdentity acc \<Longrightarrow> keyedByIdentity (collectPatternPairs ex acc fs)"
  by (induction fs arbitrary: acc) (auto simp: Let_def keyed_update)

lemma keyed_fold_update:
  "keyedByIdentity a \<Longrightarrow> \<forall>(k, q) \<in> set b. k = getIndexPairKey q \<Longrightarrow> keyedByIdentity (fold (\<lambda>(k, v). AList.update k v) b a)"
proof (induction b arbitrary: a)
  case Nil then show ?case by simp
next
  case (Cons x b)
  obtain k q where x: "x = (k, q)" by (cases x)
  with Cons.prems have "k = getIndexPairKey q" by simp
  with Cons.prems(1) have "keyedByIdentity (AList.update k q a)" by (simp add: keyed_update)
  with Cons x show ?case by simp
qed

lemma keyed_Assign: "keyedByIdentity a \<Longrightarrow> keyedByIdentity b \<Longrightarrow> keyedByIdentity (Assign a b)"
  unfolding Assign_def by (rule keyed_fold_update) (auto simp: keyedByIdentity_def)

lemma keyed_Nil: "keyedByIdentity []" by (simp add: keyedByIdentity_def)

lemma keyed_WithIndexPairs: "keyedByIdentity (IndexPairMap m) \<Longrightarrow> keyedByIdentity (IndexPairMap (WithIndexPairs m ps))"
  unfolding WithIndexPairs_def Let_def
  by (simp add: keyed_Assign keyed_collectIndexPairs keyed_Nil)

lemma keyed_WithPatternIndexes:
  "keyedByIdentity (IndexPairMap m) \<Longrightarrow> keyedByIdentity (IndexPairMap (WithPatternIndexes G M m pat))"
  unfolding WithPatternIndexes_def Let_def
  by (simp add: keyed_Assign keyed_collectPatternPairs keyed_Nil split: sum.splits)

lemma keyed_applyPairStep: "keyedByIdentity (IndexPairMap m) \<Longrightarrow> keyedByIdentity (IndexPairMap (applyPairStep M m st))"
  by (cases st) (simp_all add: keyed_WithIndexPairs keyed_WithPatternIndexes)

lemma keyed_applyPairSteps: "keyedByIdentity (IndexPairMap m) \<Longrightarrow> keyedByIdentity (IndexPairMap (applyPairSteps M m steps))"
  unfolding applyPairSteps_def
  by (induction steps arbitrary: m) (simp_all add: keyed_applyPairStep)

lemma map_of_fold_update_absent:
  "map_of b k = None \<Longrightarrow> map_of (fold (\<lambda>(k, v). AList.update k v) b a) k = map_of a k"
proof (induction b arbitrary: a)
  case Nil then show ?case by simp
next
  case (Cons x b)
  obtain k' q where x: "x = (k', q)" by (cases x)
  with Cons.prems have "k' \<noteq> k" and "map_of b k = None" by (auto split: if_splits)
  with Cons.IH[of "AList.update k' q a"] x show ?case by (simp add: update_conv')
qed

lemma map_of_fold_update_present:
  "distinct (map fst b) \<Longrightarrow> map_of b k = Some v
   \<Longrightarrow> map_of (fold (\<lambda>(k, v). AList.update k v) b a) k = Some v"
proof (induction b arbitrary: a)
  case Nil then show ?case by simp
next
  case (Cons x b)
  obtain k' q where x: "x = (k', q)" by (cases x)
  show ?case
  proof (cases "k' = k")
    case True
    with Cons.prems x have v: "q = v" and "k \<notin> fst ` set b" by auto
    then have "map_of b k = None" by (simp add: map_of_eq_None_iff)
    then have "map_of (fold (\<lambda>(k, v). AList.update k v) b (AList.update k' q a)) k
               = map_of (AList.update k' q a) k"
      by (rule map_of_fold_update_absent)
    with True v x show ?thesis by (simp add: update_conv')
  next
    case False
    with Cons.prems x have "distinct (map fst b)" and "map_of b k = Some v" by auto
    with Cons.IH[of "AList.update k' q a"] x show ?thesis by simp
  qed
qed

lemma map_of_Assign:
  "distinct (map fst b) \<Longrightarrow>
   map_of (Assign a b) k = (case map_of b k of Some v \<Rightarrow> Some v | None \<Rightarrow> map_of a k)"
  unfolding Assign_def
  by (cases "map_of b k") (simp_all add: map_of_fold_update_absent map_of_fold_update_present)

lemma map_of_collectIndexPairs:
  "map_of (collectIndexPairs acc ps) k =
   (case map_of acc k of Some q \<Rightarrow> Some q
    | None \<Rightarrow> find (\<lambda>q. getIndexPairKey q = k) ps)"
  by (induction ps arbitrary: acc) (auto simp: Let_def update_conv' split: option.splits)

lemma distinct_collectIndexPairs:
  "distinct (map fst acc) \<Longrightarrow> distinct (map fst (collectIndexPairs acc ps))"
  by (induction ps arbitrary: acc) (auto simp: Let_def distinct_update)

lemma distinct_collectPatternPairs:
  "distinct (map fst acc) \<Longrightarrow> distinct (map fst (collectPatternPairs ex acc fs))"
  by (induction fs arbitrary: acc) (auto simp: Let_def distinct_update)

lemma collectPatternPairs_skips_existing:
  "map_of ex k \<noteq> None \<Longrightarrow> map_of acc k = None
   \<Longrightarrow> map_of (collectPatternPairs ex acc fs) k = None"
proof (induction fs arbitrary: acc)
  case Nil then show ?case by simp
next
  case (Cons f fs)
  let ?p = "\<lparr>SourceIndex = f, TargetIndex = f\<rparr>"
  show ?case
  proof (cases "map_of ex (getIndexPairKey ?p) = None")
    case True
    with Cons.prems(1) have "getIndexPairKey ?p \<noteq> k" by auto
    with Cons.prems(2) have "map_of (AList.update (getIndexPairKey ?p) ?p acc) k = None"
      by (simp add: update_conv')
    with Cons.IH[OF Cons.prems(1)] True show ?thesis by (simp add: Let_def)
  next
    case False
    with Cons.IH[OF Cons.prems] show ?thesis by (auto simp: Let_def)
  qed
qed

lemma WithIndexPairs_lookup:
  "Error m = None \<Longrightarrow>
   map_of (IndexPairMap (WithIndexPairs m ps)) k =
   (case find (\<lambda>q. getIndexPairKey q = k) ps of Some q \<Rightarrow> Some q
    | None \<Rightarrow> map_of (IndexPairMap m) k)"
proof -
  assume e: "Error m = None"
  let ?n = "collectIndexPairs [] ps"
  have d: "distinct (map fst ?n)" by (rule distinct_collectIndexPairs) simp
  have l: "map_of ?n k = find (\<lambda>q. getIndexPairKey q = k) ps"
    by (simp add: map_of_collectIndexPairs)
  show ?thesis
  proof (cases "?n = []")
    case True
    with l have "find (\<lambda>q. getIndexPairKey q = k) ps = None" by simp
    with True e show ?thesis by (simp add: WithIndexPairs_def Let_def)
  next
    case False
    with e show ?thesis
      by (simp add: WithIndexPairs_def Let_def map_of_Assign[OF d] l)
  qed
qed

lemma WithPatternIndexes_keeps:
  "map_of (IndexPairMap m) k = Some q \<Longrightarrow>
   map_of (IndexPairMap (WithPatternIndexes G M m pat)) k = Some q"
proof -
  assume a: "map_of (IndexPairMap m) k = Some q"
  have "\<And>fs. map_of (Assign (IndexPairMap m) (collectPatternPairs (IndexPairMap m) [] fs)) k = Some q"
  proof -
    fix fs
    have d: "distinct (map fst (collectPatternPairs (IndexPairMap m) [] fs))"
      by (rule distinct_collectPatternPairs) simp
    have "map_of (collectPatternPairs (IndexPairMap m) [] fs) k = None"
      using a by (intro collectPatternPairs_skips_existing) simp_all
    then show "map_of (Assign (IndexPairMap m) (collectPatternPairs (IndexPairMap m) [] fs)) k = Some q"
      using a by (simp add: map_of_Assign[OF d])
  qed
  then show ?thesis using a
    by (simp add: WithPatternIndexes_def Let_def split: sum.splits)
qed

lemma key_injective_without_colon:
  assumes "getIndexPairKey p = getIndexPairKey q"
    and "CHR '':'' \<notin> set (SourceIndex p)" and "CHR '':'' \<notin> set (SourceIndex q)"
  shows "p = q"
proof -
  have t: "\<And>s t. CHR '':'' \<notin> set s \<Longrightarrow> takeWhile (\<lambda>c. c \<noteq> CHR '':'') (s @ '':'' @ t) = s"
    by (auto simp: takeWhile_tail)
  from assms(1) have e: "SourceIndex p @ '':'' @ TargetIndex p = SourceIndex q @ '':'' @ TargetIndex q"
    by (simp add: getIndexPairKey_def)
  from t[OF assms(2), of "TargetIndex p"] t[OF assms(3), of "TargetIndex q"] e
  have s: "SourceIndex p = SourceIndex q" by simp
  with e have "TargetIndex p = TargetIndex q" by simp
  with s show ?thesis by simp
qed


lemma WithScrollSize_frame:
  "WithScrollSize m n =
   (if Error m \<noteq> None then m
    else m\<lparr>ScrollSize := (if n = 0 then defaultScrollSize else n)\<rparr>)"
  by (simp add: WithScrollSize_def Let_def)

lemma WithWriteSize_frame:
  "WithWriteSize m n =
   (if Error m \<noteq> None then m
    else m\<lparr>WriteSize := (if n = 0 then defaultWriteSize else n)\<rparr>)"
  by (simp add: WithWriteSize_def Let_def)

lemma WithScrollTime_frame:
  "WithScrollTime m n =
   (if Error m \<noteq> None then m
    else m\<lparr>ScrollTime := (if n = 0 then defaultScrollTime else n)\<rparr>)"
  by (simp add: WithScrollTime_def Let_def)

lemma WithSliceSize_frame:
  "WithSliceSize m n =
   (if Error m \<noteq> None then m
    else m\<lparr>SliceSize := (if n = 0 then defaultSliceSize else n)\<rparr>)"
  by (simp add: WithSliceSize_def Let_def)

lemma WithBufferCount_frame:
  "WithBufferCount m n =
   (if Error m \<noteq> None then m
    else m\<lparr>BufferCount := (if n = 0 then defaultBufferCount else n)\<rparr>)"
  by (simp add: WithBufferCount_def Let_def)

lemma WithWriteParallel_frame:
  "WithWriteParallel m n =
   (if Error m \<noteq> None then m
    else m\<lparr>WriteParallel := (if n = 0 then defaultWriteParallel else n)\<rparr>)"
  by (simp add: WithWriteParallel_def Let_def)

lemma WithIndexPairs_frame:
  "\<exists>pairs. WithIndexPairs m indexPairs = m\<lparr>IndexPairMap := pairs\<rparr>"
proof (cases "Error m \<noteq> None \<or> collectIndexPairs [] indexPairs = []")
  case True
  then have "WithIndexPairs m indexPairs = m\<lparr>IndexPairMap := IndexPairMap m\<rparr>"
    by (auto simp: WithIndexPairs_def Let_def)
  then show ?thesis by blast
next
  case False
  then have "WithIndexPairs m indexPairs =
      m\<lparr>IndexPairMap := Assign (IndexPairMap m) (collectIndexPairs [] indexPairs)\<rparr>"
    by (simp add: WithIndexPairs_def Let_def)
  then show ?thesis by blast
qed

text \<open>
  Claim C4 says that every configuration step changes the named field only. The steps
  \<open>WithScrollSize\<close>, \<open>WithScrollTime\<close>, \<open>WithSliceSize\<close>, \<open>WithBufferCount\<close>,
  \<open>WithWriteParallel\<close>, \<open>WithWriteSize\<close> and \<open>WithIndexPairs\<close> do, as shown above; the
  struct literals of \<open>WithIds\<close>, \<open>WithParallelism\<close>, \<open>WithPatternIndexes\<close> and
  \<open>WithCompareParallelism\<close> leave fields out. On a fresh builder, whose write size is
  1000 and whose compare parallelism is 4: \<open>WithIds\<close> sets the compare parallelism to 0,
  \<open>WithParallelism\<close> and \<open>WithPatternIndexes\<close> set the write size and the compare
  parallelism to 0, \<open>WithCompareParallelism\<close> sets the write size to 0.
\<close>

theorem builder_steps_reset_other_fields:
  "WriteSize (NewBulkMigratorWithES v c s t) = 1000
   \<and> CompareParallel (NewBulkMigratorWithES v c s t) = 4
   \<and> CompareParallel (WithIds (NewBulkMigratorWithES v c s t) ids) = 0
   \<and> WriteSize (WithParallelism (NewBulkMigratorWithES v c s t) n) = 0
   \<and> CompareParallel (WithParallelism (NewBulkMigratorWithES v c s t) n) = 0
   \<and> WriteSize (WithPatternIndexes G M (NewBulkMigratorWithES v c s t) pat) = 0
   \<and> CompareParallel (WithPatternIndexes G M (NewBulkMigratorWithES v c s t) pat) = 0
   \<and> WriteSize (WithCompareParallelism cp (NewBulkMigratorWithES v c s t) n) = 0"
  by (simp add: NewBulkMigratorWithES_def WithIds_def WithParallelism_def
      WithPatternIndexes_def WithCompareParallelism_def Let_def defaultWriteSize_def
      defaultCompareParallel_def split: sum.splits)

text \<open>
  Claim C5 says that a numeric step called with \<open>n\<close> sets its field to \<open>n\<close>, or to the
  default when \<open>n\<close> is 0. On a fresh builder the steps for the scroll size, the scroll time,
  the slice size, the buffer count, the write parallelism, the write size and the
  parallelism do. \<open>WithCompareParallelism\<close> does not: the compare parallelism it stores is
  the identifier \<open>compareParallel\<close> of its struct literal, whatever the argument is, so
  the calls with 7 and with 9 store the same value.
\<close>

theorem with_compare_parallelism_ignores_argument:
  "CompareParallel (WithCompareParallelism cp (NewBulkMigratorWithES v c s t) n) = cp
   \<and> CompareParallel (WithCompareParallelism cp (NewBulkMigratorWithES v c s t) 7)
     = CompareParallel (WithCompareParallelism cp (NewBulkMigratorWithES v c s t) 9)
   \<and> ScrollSize (WithScrollSize (NewBulkMigratorWithES v c s t) n) = (if n = 0 then 1000 else n)
   \<and> ScrollTime (WithScrollTime (NewBulkMigratorWithES v c s t) n) = (if n = 0 then 5 else n)
   \<and> SliceSize (WithSliceSize (NewBulkMigratorWithES v c s t) n) = (if n = 0 then 1 else n)
   \<and> BufferCount (WithBufferCount (NewBulkMigratorWithES v c s t) n) = (if n = 0 then 4 else n)
   \<and> WriteParallel (WithWriteParallel (NewBulkMigratorWithES v c s t) n)
     = (if n = 0 then 4 else n)
   \<and> WriteSize (WithWriteSize (NewBulkMigratorWithES v c s t) n) = (if n = 0 then 1000 else n)
   \<and> Parallelism (WithParallelism (NewBulkMigratorWithES v c s t) n) = (if n = 0 then 8 else n)"
  by (simp add: NewBulkMigratorWithES_def WithCompareParallelism_def WithScrollSize_def
      WithScrollTime_def WithSliceSize_def WithBufferCount_def WithWriteParallel_def
      WithWriteSize_def WithParallelism_def Let_def defaultScrollSize_def defaultScrollTime_def
      defaultSliceSize_def defaultBufferCount_def defaultWriteParallel_def defaultWriteSize_def
      defaultParallelism_def)

text \<open>
  Claim C8, as the code has it. The key of a pair is its source, a colon, its target.
  After every sequence of \<open>WithIndexPairs\<close> and \<open>WithPatternIndexes\<close> calls on a fresh
  builder the keys of the pair map are distinct and every pair is stored under its own key.
  \<open>WithIndexPairs\<close> stores, for each identity among its arguments, the first argument of
  that identity, in place of an entry the map had for it; the other entries stay.
  \<open>WithPatternIndexes\<close> leaves every existing entry as it is. Two pairs of one identity
  whose source names hold no colon are the same pair.
\<close>

theorem pair_map_unique_by_identity:
  "getIndexPairKey p = SourceIndex p @ '':'' @ TargetIndex p
   \<and> distinct (map fst (IndexPairMap
         (applyPairSteps Match (NewBulkMigratorWithES v c s t) steps)))
   \<and> (\<forall>(k, q) \<in> set (IndexPairMap
         (applyPairSteps Match (NewBulkMigratorWithES v c s t) steps)). k = getIndexPairKey q)
   \<and> (Error m = None \<longrightarrow>
        map_of (IndexPairMap (WithIndexPairs m ps)) k =
          (case find (\<lambda>q. getIndexPairKey q = k) ps of
             Some q \<Rightarrow> Some q | None \<Rightarrow> map_of (IndexPairMap m) k))
   \<and> (map_of (IndexPairMap m) k = Some q \<longrightarrow>
        map_of (IndexPairMap (WithPatternIndexes G Match m pat)) k = Some q)
   \<and> (getIndexPairKey p = getIndexPairKey q \<and> CHR '':'' \<notin> set (SourceIndex p)
        \<and> CHR '':'' \<notin> set (SourceIndex q) \<longrightarrow> p = q)"
proof -
  have "keyedByIdentity (IndexPairMap (NewBulkMigratorWithES v c s t))"
    by (simp add: NewBulkMigratorWithES_def Let_def keyed_Nil)
  then have "keyedByIdentity (IndexPairMap
      (applyPairSteps Match (NewBulkMigratorWithES v c s t) steps))"
    by (rule keyed_applyPairSteps)
  then have inv: "distinct (map fst (IndexPairMap
         (applyPairSteps Match (NewBulkMigratorWithES v c s t) steps)))"
    "\<forall>(k, q) \<in> set (IndexPairMap
         (applyPairSteps Match (NewBulkMigratorWithES v c s t) steps)). k = getIndexPairKey q"
    by (simp_all add: keyedByIdentity_def)
  show ?thesis
    using inv WithIndexPairs_lookup[of m ps k] WithPatternIndexes_keeps[of m k q G Match pat]
      key_injective_without_colon[of p q]
    by (simp add: getIndexPairKey_def)
qed

theorem pair_map_unique_by_identity_witness:
  "IndexPairMap (applyPairSteps (\<lambda>pat i. Inr True)
      (NewBulkMigratorWithES (\<lambda>r. ''6.8.0'')
         \<lparr>CtxSourceESVersion = [], CtxTargetESVersion = [], CtxIgnoreSystemIndex = True\<rparr> 1 2)
      [StepIndexPairs [\<lparr>SourceIndex = ''a'', TargetIndex = ''b''\<rparr>,
                       \<lparr>SourceIndex = ''a'', TargetIndex = ''b''\<rparr>],
       StepPatternIndexes (Inr [''logs-1'', ''.sys'', ''logs-1'']) ''.*''])
   = [(''a:b'', \<lparr>SourceIndex = ''a'', TargetIndex = ''b''\<rparr>),
      (''logs-1:logs-1'', \<lparr>SourceIndex = ''logs-1'', TargetIndex = ''logs-1''\<rparr>)]
   \<and> distinct (map fst (IndexPairMap (applyPairSteps (\<lambda>pat i. Inr True)
      (NewBulkMigratorWithES (\<lambda>r. ''6.8.0'')
         \<lparr>CtxSourceESVersion = [], CtxTargetESVersion = [], CtxIgnoreSystemIndex = True\<rparr> 1 2)
      [StepIndexPairs [\<lparr>SourceIndex = ''a'', TargetIndex = ''b''\<rparr>,
                       \<lparr>SourceIndex = ''a'', TargetIndex = ''b''\<rparr>],
       StepPatternIndexes (Inr [''logs-1'', ''.sys'', ''logs-1'']) ''.*''])))
   \<and> Error (WithIndexPairs (NewBulkMigratorWithES (\<lambda>r. ''6.8.0'')
         \<lparr>CtxSourceESVersion = [], CtxTargetESVersion = [], CtxIgnoreSystemIndex = True\<rparr> 1 2)
         [\<lparr>SourceIndex = ''a'', TargetIndex = ''b''\<rparr>]) = None
   \<and> map_of (IndexPairMap (WithIndexPairs (NewBulkMigratorWithES (\<lambda>r. ''6.8.0'')
         \<lparr>CtxSourceESVersion = [], CtxTargetESVersion = [], CtxIgnoreSystemIndex = True\<rparr> 1 2)
         [\<lparr>SourceIndex = ''a'', TargetIndex = ''b''\<rparr>])) ''a:b''
       = Some \<lparr>SourceIndex = ''a'', TargetIndex = ''b''\<rparr>
   \<and> map_of (IndexPairMap (WithPatternIndexes (\<lambda>r. Inr [''a'', ''logs-1''])
         (\<lambda>pat i. Inr True)
         (WithIndexPairs (NewBulkMigratorWithES (\<lambda>r. ''6.8.0'')
            \<lparr>CtxSourceESVersion = [], CtxTargetESVersion = [], CtxIgnoreSystemIndex = True\<rparr> 1 2)
            [\<lparr>SourceIndex = ''a'', TargetIndex = ''b''\<rparr>]) ''.*'')) ''a:b''
       = Some \<lparr>SourceIndex = ''a'', TargetIndex = ''b''\<rparr>
   \<and> map_of (IndexPairMap (WithIndexPairs
         (WithIndexPairs (NewBulkMigratorWithES (\<lambda>r. ''6.8.0'')
            \<lparr>CtxSourceESVersion = [], CtxTargetESVersion = [], CtxIgnoreSystemIndex = True\<rparr> 1 2)
            [\<lparr>SourceIndex = ''a'', TargetIndex = ''b''\<rparr>])
         [\<lparr>SourceIndex = ''c'', TargetIndex = ''d''\<rparr>])) ''a:b''
       = Some \<lparr>SourceIndex = ''a'', TargetIndex = ''b''\<rparr>
   \<and> getIndexPairKey \<lparr>SourceIndex = ''a'', TargetIndex = ''b''\<rparr> = ''a:b''
   \<and> CHR '':'' \<notin> set (SourceIndex \<lparr>SourceIndex = ''a'', TargetIndex = ''b''\<rparr>)"
  using pair_map_unique_by_identity[of "\<lparr>SourceIndex = ''a'', TargetIndex = ''b''\<rparr>"
      "\<lambda>pat i. Inr True" "\<lambda>r. ''6.8.0''"
      "\<lparr>CtxSourceESVersion = [], CtxTargetESVersion = [], CtxIgnoreSystemIndex = True\<rparr>" 1 2
      "[StepIndexPairs [\<lparr>SourceIndex = ''a'', TargetIndex = ''b''\<rparr>,
                       \<lparr>SourceIndex = ''a'', TargetIndex = ''b''\<rparr>],
       StepPatternIndexes (Inr [''logs-1'', ''.sys'', ''logs-1'']) ''.*'']"
      "WithIndexPairs (NewBulkMigratorWithES (\<lambda>r. ''6.8.0'')
         \<lparr>CtxSourceESVersion = [], CtxTargetESVersion = [], CtxIgnoreSystemIndex = True\<rparr> 1 2)
         [\<lparr>SourceIndex = ''a'', TargetIndex = ''b''\<rparr>]"
      "[\<lparr>SourceIndex = ''c'', TargetIndex = ''d''\<rparr>]" "''a:b''"
      "\<lparr>SourceIndex = ''a'', TargetIndex = ''b''\<rparr>" "\<lambda>r. Inr [''a'', ''logs-1'']" "''.*''"]
  by (simp add: applyPairSteps_def WithIndexPairs_def WithPatternIndexes_def
      NewBulkMigratorWithES_def filterIndexes_def Let_def getIndexPairKey_def Assign_def
      HasPrefix_def)

text \<open>
  Claim C8 as stated fails: the pairs \<open>(a:b, c)\<close> and \<open>(a, b:c)\<close> have the identity
  \<open>a:b:c\<close>, and a second \<open>WithIndexPairs\<close> call with the latter replaces the entry of
  the former.
\<close>

theorem with_index_pairs_replaces_entry_counterexample:
  "getIndexPairKey \<lparr>SourceIndex = ''a:b'', TargetIndex = ''c''\<rparr>
     = getIndexPairKey \<lparr>SourceIndex = ''a'', TargetIndex = ''b:c''\<rparr>
   \<and> map_of (IndexPairMap (WithIndexPairs
       (NewBulkMigratorWithES (\<lambda>r. ''6.8.0'')
          \<lparr>CtxSourceESVersion = [], CtxTargetESVersion = [], CtxIgnoreSystemIndex = True\<rparr> 1 2)
       [\<lparr>SourceIndex = ''a:b'', TargetIndex = ''c''\<rparr>])) ''a:b:c''
     = Some \<lparr>SourceIndex = ''a:b'', TargetIndex = ''c''\<rparr>
   \<and> map_of (IndexPairMap (WithIndexPairs (WithIndexPairs
       (NewBulkMigratorWithES (\<lambda>r. ''6.8.0'')
          \<lparr>CtxSourceESVersion = [], CtxTargetESVersion = [], CtxIgnoreSystemIndex = True\<rparr> 1 2)
       [\<lparr>SourceIndex = ''a:b'', TargetIndex = ''c''\<rparr>])
       [\<lparr>SourceIndex = ''a'', TargetIndex = ''b:c''\<rparr>])) ''a:b:c''
     = Some \<lparr>SourceIndex = ''a'', TargetIndex = ''b:c''\<rparr>"
  by (simp add: WithIndexPairs_def NewBulkMigratorWithES_def Let_def getIndexPairKey_def
      Assign_def)

section \<open>Properties of the typed cluster adapter\<close>

text \<open>
  What \<open>BulkBody\<close> appends: for a create document whose source has at least one key,
  the \<open>index\<close> action line and the source as the body line; for update, the \<open>update\<close>
  action line and the body line \<open>{type: source}\<close> under the document's type; for delete,
  the \<open>delete\<close> action line alone; every action line carries \<open>_index\<close>, \<open>_id\<close> and
  \<open>_type\<close>; any other operation is an error.
\<close>

lemma bulk_body_encoding:
  "(Op doc = OperationCreate \<and> Source doc = Some kv \<and> kv \<noteq> [] \<longrightarrow>
      BulkBody index buf doc =
        Inr (buf @ [JObject [(''index'', JObject [(''_index'', JString index),
                                                  (''_id'', JString (ID doc)),
                                                  (''_type'', JString (Type doc))])],
                    JObject kv]))
   \<and> (Op doc = OperationUpdate \<longrightarrow>
      BulkBody index buf doc =
        Inr (buf @ [JObject [(''update'', JObject [(''_index'', JString index),
                                                   (''_id'', JString (ID doc)),
                                                   (''_type'', JString (Type doc))])],
                    JObject [(Type doc, mapValue (Source doc))]]))
   \<and> (Op doc = OperationDelete \<longrightarrow>
      BulkBody index buf doc =
        Inr (buf @ [JObject [(''delete'', JObject [(''_index'', JString index),
                                                   (''_id'', JString (ID doc)),
                                                   (''_type'', JString (Type doc))])]]))
   \<and> (Op doc = OperationOther n \<longrightarrow> BulkBody index buf doc = Inl (UnknownAction n))"
  by (simp add: BulkBody_def mapLen_def mapValue_def Let_def)

lemma bulk_body_encoding_examples:
  "BulkBody ''books'' []
     \<lparr>ID = ''1'', Type = ''book'', Source = Some [(''title'', JString ''a'')],
      Op = OperationCreate\<rparr>
   = Inr [JObject [(''index'', JObject [(''_index'', JString ''books''), (''_id'', JString ''1''),
                                        (''_type'', JString ''book'')])],
          JObject [(''title'', JString ''a'')]]
   \<and> BulkBody ''books'' []
     \<lparr>ID = ''1'', Type = ''book'', Source = Some [(''title'', JString ''b'')],
      Op = OperationUpdate\<rparr>
   = Inr [JObject [(''update'', JObject [(''_index'', JString ''books''), (''_id'', JString ''1''),
                                         (''_type'', JString ''book'')])],
          JObject [(''book'', JObject [(''title'', JString ''b'')])]]
   \<and> BulkBody ''books'' [] \<lparr>ID = ''1'', Type = ''book'', Source = None, Op = OperationDelete\<rparr>
   = Inr [JObject [(''delete'', JObject [(''_index'', JString ''books''), (''_id'', JString ''1''),
                                         (''_type'', JString ''book'')])]]
   \<and> BulkBody ''books'' [] \<lparr>ID = ''1'', Type = ''book'', Source = None, Op = OperationOther 7\<rparr>
   = Inl (UnknownAction 7)"
  by (simp add: BulkBody_def mapLen_def mapValue_def Let_def)

text \<open>
  Claim C6 says that a create document yields the \<open>index\<close> action line followed by the
  document's source as the body line. For a create document whose source is the empty
  object \<open>BulkBody\<close> writes the action line alone: the guard \<open>len(body) > 0\<close>, there for
  the delete that has no body, skips the body line of the create too. The action line of
  the document serialized next then stands where the source of the first belongs. The
  update of a document with the empty source does get its body line.
\<close>

theorem bulk_body_create_empty_source_drops_body:
  "BulkBody ''books'' [] \<lparr>ID = ''1'', Type = ''book'', Source = Some [], Op = OperationCreate\<rparr>
   = Inr [JObject [(''index'', JObject [(''_index'', JString ''books''), (''_id'', JString ''1''),
                                        (''_type'', JString ''book'')])]]
   \<and> BulkBody ''books''
        [JObject [(''index'', JObject [(''_index'', JString ''books''), (''_id'', JString ''1''),
                                       (''_type'', JString ''book'')])]]
        \<lparr>ID = ''2'', Type = ''book'', Source = Some [(''title'', JString ''b'')],
         Op = OperationCreate\<rparr>
   = Inr [JObject [(''index'', JObject [(''_index'', JString ''books''), (''_id'', JString ''1''),
                                        (''_type'', JString ''book'')])],
          JObject [(''index'', JObject [(''_index'', JString ''books''), (''_id'', JString ''2''),
                                        (''_type'', JString ''book'')])],
          JObject [(''title'', JString ''b'')]]
   \<and> BulkBody ''books'' [] \<lparr>ID = ''1'', Type = ''book'', Source = Some [], Op = OperationUpdate\<rparr>
   = Inr [JObject [(''update'', JObject [(''_index'', JString ''books''), (''_id'', JString ''1''),
                                         (''_type'', JString ''book'')])],
          JObject [(''book'', JObject [])]]"
  by (simp add: BulkBody_def mapLen_def mapValue_def Let_def)

lemma NewScroll_answered:
  "SliceId option = None \<or> optSliceSize option \<noteq> None \<Longrightarrow> \<forall>req. Search req = Inr res \<Longrightarrow>
   NewScroll Search Decode index option =
     Returned (if StatusCode res \<noteq> 200 then Inl (ClusterError (StatusCode res) (Body res))
               else (case Decode (Body res) of
                       Inl err \<Rightarrow> Inl (DecodeError err)
                     | Inr scrollResult \<Rightarrow> Inr scrollResult))"
proof (cases "SliceId option")
  case None
  assume "\<forall>req. Search req = Inr res"
  with None show ?thesis by (simp add: NewScroll_def Let_def formatError_def split: sum.split)
next
  case (Some i)
  assume "SliceId option = None \<or> optSliceSize option \<noteq> None"
  with Some obtain n where n: "optSliceSize option = Some n" by auto
  assume "\<forall>req. Search req = Inr res"
  with Some n show ?thesis by (simp add: NewScroll_def Let_def formatError_def split: sum.split)
qed

lemma GetIndexes_cluster_error:
  "(StatusCode res \<noteq> 200 \<longrightarrow>
      GetIndexes Fields Scan (Inr res) =
        Returned (Inl (ClusterError (StatusCode res) (Body res))))
   \<and> (StatusCode res = 200 \<longrightarrow>
      GetIndexes Fields Scan (Inr res) \<noteq> Returned (Inl (ClusterError status message)))"
  by (simp add: GetIndexes_def formatError_def split: prod.splits option.splits)

lemma GetIndexMappingAndSetting_error:
  "GetIndexMappingAndSetting NewSettings existed settings mappings aliases index = Inl err \<Longrightarrow>
   snd existed = Some err \<or> settings = Inl err \<or> mappings = Inl err \<or> aliases = Inl err"
  by (auto simp: GetIndexMappingAndSetting_def split: prod.splits option.splits sum.splits
      if_splits)

text \<open>
  Claim C7, as the code has it. When the REST client answers with a response, every
  operation of the adapter that calls the cluster returns the cluster error carrying the
  status and the body if and only if the status is not 200. At 200 \<open>Bulk\<close>,
  \<open>CreateIndex\<close>, \<open>DeleteIndex\<close>, \<open>ClearScroll\<close> and \<open>CreateTemplate\<close> return no error;
  \<open>NextScroll\<close>, \<open>NewScroll\<close> (when it does not panic before its call),
  \<open>GetIndexAliases\<close>, \<open>GetIndexMapping\<close>, \<open>GetIndexSettings\<close>, \<open>Count\<close>,
  \<open>ClusterHealth\<close> and \<open>GetInfo\<close> go on to decode the body, and \<open>GetIndexes\<close> to scan
  it, none of which gives a cluster error. \<open>IndexExisted\<close> answers true at 200, false
  without an error at 404, and the cluster error at every other status. An error of
  \<open>GetIndexMappingAndSetting\<close> is the error of one of its four steps.
\<close>

theorem adapter_errors:
  "(ClientBulk buf = Inr res \<longrightarrow>
      Bulk ClientBulk buf =
        (if StatusCode res \<noteq> 200 then Some (ClusterError (StatusCode res) (Body res)) else None))
   \<and> (Do \<lparr>ReqIndex = GetIndex esSetting,
           ReqBody = JObject (Assign (Assign (GetSettings esSetting) (GetMappings esSetting))
                                (GetAliases esSetting))\<rparr> = Inr res \<longrightarrow>
      CreateIndex Do esSetting =
        (if StatusCode res \<noteq> 200 then Some (ClusterError (StatusCode res) (Body res)) else None))
   \<and> (Exists [indexName] = Inr res \<longrightarrow>
      IndexExisted Exists indexName =
        (if StatusCode res = 200 then (True, None)
         else if StatusCode res = 404 then (False, None)
         else (False, Some (ClusterError (StatusCode res) (Body res)))))
   \<and> (Delete [indexName] = Inr res \<longrightarrow>
      DeleteIndex Delete indexName =
        (if StatusCode res \<noteq> 200 then Some (ClusterError (StatusCode res) (Body res)) else None))
   \<and> (ClientClearScroll scrollId = Inr res \<longrightarrow>
      ClearScroll ClientClearScroll scrollId =
        (if StatusCode res \<noteq> 200 then Some (ClusterError (StatusCode res) (Body res)) else None))
   \<and> (PutTemplate name (JObject body) = Inr res \<longrightarrow>
      CreateTemplate PutTemplate name body =
        (if StatusCode res \<noteq> 200 then Some (ClusterError (StatusCode res) (Body res)) else None))
   \<and> (ClientScroll scrollId (scrollTime * 60000000000) = Inr res \<longrightarrow>
      NextScroll ClientScroll DecodeScroll scrollId scrollTime =
        (if StatusCode res \<noteq> 200 then Inl (ClusterError (StatusCode res) (Body res))
         else (case DecodeScroll (Body res) of
                 Inl err \<Rightarrow> Inl (DecodeError err)
               | Inr scrollResult \<Rightarrow> Inr scrollResult)))
   \<and> ((SliceId option = None \<or> optSliceSize option \<noteq> None) \<and> (\<forall>req. Search req = Inr res) \<longrightarrow>
      NewScroll Search DecodeScroll indexName option =
        Returned (if StatusCode res \<noteq> 200 then Inl (ClusterError (StatusCode res) (Body res))
                  else (case DecodeScroll (Body res) of
                          Inl err \<Rightarrow> Inl (DecodeError err)
                        | Inr scrollResult \<Rightarrow> Inr scrollResult)))
   \<and> (GetAlias indexName = Inr res \<longrightarrow>
      GetIndexAliases GetAlias Decode indexName =
        (if StatusCode res \<noteq> 200 then Inl (ClusterError (StatusCode res) (Body res))
         else (case Decode (Body res) of
                 Inl err \<Rightarrow> Inl (DecodeError err)
               | Inr decoded \<Rightarrow> Inr decoded)))
   \<and> (GetMapping indexName = Inr res \<longrightarrow>
      GetIndexMapping GetMapping Decode indexName =
        (if StatusCode res \<noteq> 200 then Inl (ClusterError (StatusCode res) (Body res))
         else (case Decode (Body res) of
                 Inl err \<Rightarrow> Inl (DecodeError err)
               | Inr decoded \<Rightarrow> Inr decoded)))
   \<and> (ClientGetSettings indexName = Inr res \<longrightarrow>
      GetIndexSettings ClientGetSettings Decode indexName =
        (if StatusCode res \<noteq> 200 then Inl (ClusterError (StatusCode res) (Body res))
         else (case Decode (Body res) of
                 Inl err \<Rightarrow> Inl (DecodeError err)
               | Inr decoded \<Rightarrow> Inr decoded)))
   \<and> (ClientCount indexName = Inr res \<longrightarrow>
      Count ClientCount Decode ToUint indexName =
        (if StatusCode res \<noteq> 200 then Inl (ClusterError (StatusCode res) (Body res))
         else (case Decode (Body res) of
                 Inl err \<Rightarrow> Inl (DecodeError err)
               | Inr decoded \<Rightarrow> Inr (ToUint (map_of decoded ''count'')))))
   \<and> ClusterHealth (Inr res) Decode =
        (if StatusCode res \<noteq> 200 then Inl (ClusterError (StatusCode res) (Body res))
         else (case Decode (Body res) of
                 Inl err \<Rightarrow> Inl (DecodeError err)
               | Inr decoded \<Rightarrow> Inr decoded))
   \<and> GetInfo (Inr res) Decode =
        (if StatusCode res \<noteq> 200 then Inl (ClusterError (StatusCode res) (Body res))
         else (case Decode (Body res) of
                 Inl err \<Rightarrow> Inl (DecodeError err)
               | Inr decoded \<Rightarrow> Inr decoded))
   \<and> (StatusCode res \<noteq> 200 \<longrightarrow>
      GetIndexes Fields Scan (Inr res) =
        Returned (Inl (ClusterError (StatusCode res) (Body res))))
   \<and> (StatusCode res = 200 \<longrightarrow>
      GetIndexes Fields Scan (Inr res) \<noteq> Returned (Inl (ClusterError status message)))
   \<and> (GetIndexMappingAndSetting NewSettings existed settings mappings aliases indexName = Inl err
        \<longrightarrow> snd existed = Some err \<or> settings = Inl err \<or> mappings = Inl err
            \<or> aliases = Inl err)"
proof -
  have simple:
    "ClientBulk buf = Inr res \<longrightarrow>
      Bulk ClientBulk buf =
        (if StatusCode res \<noteq> 200 then Some (ClusterError (StatusCode res) (Body res)) else None)"
    "Do \<lparr>ReqIndex = GetIndex esSetting,
           ReqBody = JObject (Assign (Assign (GetSettings esSetting) (GetMappings esSetting))
                                (GetAliases esSetting))\<rparr> = Inr res \<longrightarrow>
      CreateIndex Do esSetting =
        (if StatusCode res \<noteq> 200 then Some (ClusterError (StatusCode res) (Body res)) else None)"
    "Exists [indexName] = Inr res \<longrightarrow>
      IndexExisted Exists indexName =
        (if StatusCode res = 200 then (True, None)
         else if StatusCode res = 404 then (False, None)
         else (False, Some (ClusterError (StatusCode res) (Body res))))"
    "Delete [indexName] = Inr res \<longrightarrow>
      DeleteIndex Delete indexName =
        (if StatusCode res \<noteq> 200 then Some (ClusterError (StatusCode res) (Body res)) else None)"
    "ClientClearScroll scrollId = Inr res \<longrightarrow>
      ClearScroll ClientClearScroll scrollId =
        (if StatusCode res \<noteq> 200 then Some (ClusterError (StatusCode res) (Body res)) else None)"
    "PutTemplate name (JObject body) = Inr res \<longrightarrow>
      CreateTemplate PutTemplate name body =
        (if StatusCode res \<noteq> 200 then Some (ClusterError (StatusCode res) (Body res)) else None)"
    by (simp_all add: Bulk_def CreateIndex_def IndexExisted_def DeleteIndex_def ClearScroll_def
        CreateTemplate_def formatError_def Let_def)
  have decoding:
    "ClientScroll scrollId (scrollTime * 60000000000) = Inr res \<longrightarrow>
      NextScroll ClientScroll DecodeScroll scrollId scrollTime =
        (if StatusCode res \<noteq> 200 then Inl (ClusterError (StatusCode res) (Body res))
         else (case DecodeScroll (Body res) of
                 Inl err \<Rightarrow> Inl (DecodeError err)
               | Inr scrollResult \<Rightarrow> Inr scrollResult))"
    "GetAlias indexName = Inr res \<longrightarrow>
      GetIndexAliases GetAlias Decode indexName =
        (if StatusCode res \<noteq> 200 then Inl (ClusterError (StatusCode res) (Body res))
         else (case Decode (Body res) of
                 Inl err \<Rightarrow> Inl (DecodeError err)
               | Inr decoded \<Rightarrow> Inr decoded))"
    "GetMapping indexName = Inr res \<longrightarrow>
      GetIndexMapping GetMapping Decode indexName =
        (if StatusCode res \<noteq> 200 then Inl (ClusterError (StatusCode res) (Body res))
         else (case Decode (Body res) of
                 Inl err \<Rightarrow> Inl (DecodeError err)
               | Inr decoded \<Rightarrow> Inr decoded))"
    "ClientGetSettings indexName = Inr res \<longrightarrow>
      GetIndexSettings ClientGetSettings Decode indexName =
        (if StatusCode res \<noteq> 200 then Inl (ClusterError (StatusCode res) (Body res))
         else (case Decode (Body res) of
                 Inl err \<Rightarrow> Inl (DecodeError err)
               | Inr decoded \<Rightarrow> Inr decoded))"
    "ClientCount indexName = Inr res \<longrightarrow>
      Count ClientCount Decode ToUint indexName =
        (if StatusCode res \<noteq> 200 then Inl (ClusterError (StatusCode res) (Body res))
         else (case Decode (Body res) of
                 Inl err \<Rightarrow> Inl (DecodeError err)
               | Inr decoded \<Rightarrow> Inr (ToUint (map_of decoded ''count''))))"
    "ClusterHealth (Inr res) Decode =
        (if StatusCode res \<noteq> 200 then Inl (ClusterError (StatusCode res) (Body res))
         else (case Decode (Body res) of
                 Inl err \<Rightarrow> Inl (DecodeError err)
               | Inr decoded \<Rightarrow> Inr decoded))"
    "GetInfo (Inr res) Decode =
        (if StatusCode res \<noteq> 200 then Inl (ClusterError (StatusCode res) (Body res))
         else (case Decode (Body res) of
                 Inl err \<Rightarrow> Inl (DecodeError err)
               | Inr decoded \<Rightarrow> Inr decoded))"
    by (simp_all add: NextScroll_def GetIndexAliases_def GetIndexMapping_def
        GetIndexSettings_def Count_def ClusterHealth_def GetInfo_def formatError_def)
  have scroll:
    "(SliceId option = None \<or> optSliceSize option \<noteq> None) \<and> (\<forall>req. Search req = Inr res) \<longrightarrow>
      NewScroll Search DecodeScroll indexName option =
        Returned (if StatusCode res \<noteq> 200 then Inl (ClusterError (StatusCode res) (Body res))
                  else (case DecodeScroll (Body res) of
                          Inl err \<Rightarrow> Inl (DecodeError err)
                        | Inr scrollResult \<Rightarrow> Inr scrollResult))"
    using NewScroll_answered[of option Search res DecodeScroll indexName] by blast
  have composite:
    "GetIndexMappingAndSetting NewSettings existed settings mappings aliases indexName = Inl err
        \<longrightarrow> snd existed = Some err \<or> settings = Inl err \<or> mappings = Inl err
            \<or> aliases = Inl err"
    using GetIndexMappingAndSetting_error[of NewSettings existed settings mappings aliases
        indexName err] by blast
  note indexes = GetIndexes_cluster_error[of res Fields Scan status message]
  from simple decoding scroll composite indexes[THEN conjunct1] indexes[THEN conjunct2]
  show ?thesis by (intro conjI)
qed

theorem adapter_errors_witness:
  "Bulk (\<lambda>buf. Inr \<lparr>StatusCode = 500, Body = ''boom''\<rparr>) [] = Some (ClusterError 500 ''boom'')
   \<and> CreateIndex (\<lambda>req. Inr \<lparr>StatusCode = 500, Body = ''boom''\<rparr>)
        \<lparr>GetSettings = [], GetMappings = [], GetAliases = [], GetIndex = ''books''\<rparr>
      = Some (ClusterError 500 ''boom'')
   \<and> IndexExisted (\<lambda>names. Inr \<lparr>StatusCode = 500, Body = ''boom''\<rparr>) ''books'' = (False, Some (ClusterError 500 ''boom''))
   \<and> DeleteIndex (\<lambda>names. Inr \<lparr>StatusCode = 500, Body = ''boom''\<rparr>) ''books'' = Some (ClusterError 500 ''boom'')
   \<and> ClearScroll (\<lambda>i. Inr \<lparr>StatusCode = 500, Body = ''boom''\<rparr>) ''s'' = Some (ClusterError 500 ''boom'')
   \<and> CreateTemplate (\<lambda>n b. Inr \<lparr>StatusCode = 500, Body = ''boom''\<rparr>) ''t'' [] = Some (ClusterError 500 ''boom'')
   \<and> NextScroll (\<lambda>i t. Inr \<lparr>StatusCode = 500, Body = ''boom''\<rparr>)
        (\<lambda>b. Inr \<lparr>Total = 0, Docs = [], ScrollId = ''s''\<rparr>) ''s'' 5
      = Inl (ClusterError 500 ''boom'')
   \<and> NewScroll (\<lambda>req. Inr \<lparr>StatusCode = 500, Body = ''boom''\<rparr>)
        (\<lambda>b. Inr \<lparr>Total = 0, Docs = [], ScrollId = ''s''\<rparr>) ''books''
        \<lparr>optScrollSize = 1000, optScrollTime = 5, Query = [], SliceId = None,
         optSliceSize = None, SortFields = []\<rparr>
      = Returned (Inl (ClusterError 500 ''boom''))
   \<and> GetIndexAliases (\<lambda>i. Inr \<lparr>StatusCode = 500, Body = ''boom''\<rparr>) (\<lambda>b. Inr []) ''books'' = Inl (ClusterError 500 ''boom'')
   \<and> GetIndexMapping (\<lambda>i. Inr \<lparr>StatusCode = 500, Body = ''boom''\<rparr>) (\<lambda>b. Inr []) ''books'' = Inl (ClusterError 500 ''boom'')
   \<and> GetIndexSettings (\<lambda>i. Inr \<lparr>StatusCode = 500, Body = ''boom''\<rparr>) (\<lambda>b. Inr []) ''books'' = Inl (ClusterError 500 ''boom'')
   \<and> Count (\<lambda>i. Inr \<lparr>StatusCode = 500, Body = ''boom''\<rparr>) (\<lambda>b. Inr []) (\<lambda>v. 0) ''books'' = Inl (ClusterError 500 ''boom'')
   \<and> ClusterHealth (Inr \<lparr>StatusCode = 500, Body = ''boom''\<rparr>) (\<lambda>b. Inr []) = Inl (ClusterError 500 ''boom'')
   \<and> GetInfo (Inr \<lparr>StatusCode = 500, Body = ''boom''\<rparr>) (\<lambda>b. Inr []) = Inl (ClusterError 500 ''boom'')
   \<and> GetIndexes stringsFields scanBody (Inr \<lparr>StatusCode = 500, Body = ''boom''\<rparr>) = Returned (Inl (ClusterError 500 ''boom''))
   \<and> Bulk (\<lambda>buf. Inr \<lparr>StatusCode = 200, Body = ''ok''\<rparr>) [] = None
   \<and> CreateIndex (\<lambda>req. Inr \<lparr>StatusCode = 200, Body = ''ok''\<rparr>)
        \<lparr>GetSettings = [], GetMappings = [], GetAliases = [], GetIndex = ''books''\<rparr> = None
   \<and> IndexExisted (\<lambda>names. Inr \<lparr>StatusCode = 200, Body = ''ok''\<rparr>) ''books'' = (True, None)
   \<and> DeleteIndex (\<lambda>names. Inr \<lparr>StatusCode = 200, Body = ''ok''\<rparr>) ''books'' = None
   \<and> ClearScroll (\<lambda>i. Inr \<lparr>StatusCode = 200, Body = ''ok''\<rparr>) ''s'' = None
   \<and> CreateTemplate (\<lambda>n b. Inr \<lparr>StatusCode = 200, Body = ''ok''\<rparr>) ''t'' [] = None
   \<and> NextScroll (\<lambda>i t. Inr \<lparr>StatusCode = 200, Body = ''ok''\<rparr>)
        (\<lambda>b. Inr \<lparr>Total = 0, Docs = [], ScrollId = ''s''\<rparr>) ''s'' 5
      = Inr \<lparr>Total = 0, Docs = [], ScrollId = ''s''\<rparr>
   \<and> NewScroll (\<lambda>req. Inr \<lparr>StatusCode = 200, Body = ''ok''\<rparr>)
        (\<lambda>b. Inr \<lparr>Total = 0, Docs = [], ScrollId = ''s''\<rparr>) ''books''
        \<lparr>optScrollSize = 1000, optScrollTime = 5, Query = [], SliceId = None,
         optSliceSize = None, SortFields = []\<rparr>
      = Returned (Inr \<lparr>Total = 0, Docs = [], ScrollId = ''s''\<rparr>)
   \<and> GetIndexAliases (\<lambda>i. Inr \<lparr>StatusCode = 200, Body = ''ok''\<rparr>) (\<lambda>b. Inr []) ''books'' = Inr []
   \<and> GetIndexMapping (\<lambda>i. Inr \<lparr>StatusCode = 200, Body = ''ok''\<rparr>) (\<lambda>b. Inr []) ''books'' = Inr []
   \<and> GetIndexSettings (\<lambda>i. Inr \<lparr>StatusCode = 200, Body = ''ok''\<rparr>) (\<lambda>b. Inr []) ''books'' = Inr []
   \<and> Count (\<lambda>i. Inr \<lparr>StatusCode = 200, Body = ''ok''\<rparr>) (\<lambda>b. Inr []) (\<lambda>v. 0) ''books'' = Inr 0
   \<and> ClusterHealth (Inr \<lparr>StatusCode = 200, Body = ''ok''\<rparr>) (\<lambda>b. Inr []) = Inr []
   \<and> GetInfo (Inr \<lparr>StatusCode = 200, Body = ''ok''\<rparr>) (\<lambda>b. Inr []) = Inr []
   \<and> IndexExisted (\<lambda>names. Inr \<lparr>StatusCode = 404, Body = []\<rparr>) ''books'' = (False, None)
   \<and> GetIndexMappingAndSetting (\<lambda>s m a i. i)
        (IndexExisted (\<lambda>names. Inr \<lparr>StatusCode = 500, Body = ''boom''\<rparr>) ''books'')
        (Inr []) (Inr []) (Inr []) ''books''
      = Inl (ClusterError 500 ''boom'')"
proof -
  have at500:
    "Bulk (\<lambda>buf. Inr \<lparr>StatusCode = 500, Body = ''boom''\<rparr>) [] = Some (ClusterError 500 ''boom'')
     \<and> CreateIndex (\<lambda>req. Inr \<lparr>StatusCode = 500, Body = ''boom''\<rparr>)
          \<lparr>GetSettings = [], GetMappings = [], GetAliases = [], GetIndex = ''books''\<rparr>
        = Some (ClusterError 500 ''boom'')
     \<and> IndexExisted (\<lambda>names. Inr \<lparr>StatusCode = 500, Body = ''boom''\<rparr>) ''books'' = (False, Some (ClusterError 500 ''boom''))
     \<and> DeleteIndex (\<lambda>names. Inr \<lparr>StatusCode = 500, Body = ''boom''\<rparr>) ''books'' = Some (ClusterError 500 ''boom'')
     \<and> ClearScroll (\<lambda>i. Inr \<lparr>StatusCode = 500, Body = ''boom''\<rparr>) ''s'' = Some (ClusterError 500 ''boom'')
     \<and> CreateTemplate (\<lambda>n b. Inr \<lparr>StatusCode = 500, Body = ''boom''\<rparr>) ''t'' [] = Some (ClusterError 500 ''boom'')
     \<and> NextScroll (\<lambda>i t. Inr \<lparr>StatusCode = 500, Body = ''boom''\<rparr>)
          (\<lambda>b. Inr \<lparr>Total = 0, Docs = [], ScrollId = ''s''\<rparr>) ''s'' 5
        = Inl (ClusterError 500 ''boom'')
     \<and> NewScroll (\<lambda>req. Inr \<lparr>StatusCode = 500, Body = ''boom''\<rparr>)
          (\<lambda>b. Inr \<lparr>Total = 0, Docs = [], ScrollId = ''s''\<rparr>) ''books''
          \<lparr>optScrollSize = 1000, optScrollTime = 5, Query = [], SliceId = None,
           optSliceSize = None, SortFields = []\<rparr>
        = Returned (Inl (ClusterError 500 ''boom''))
     \<and> GetIndexAliases (\<lambda>i. Inr \<lparr>StatusCode = 500, Body = ''boom''\<rparr>) (\<lambda>b. Inr []) ''books'' = Inl (ClusterError 500 ''boom'')
     \<and> GetIndexMapping (\<lambda>i. Inr \<lparr>StatusCode = 500, Body = ''boom''\<rparr>) (\<lambda>b. Inr []) ''books'' = Inl (ClusterError 500 ''boom'')
     \<and> GetIndexSettings (\<lambda>i. Inr \<lparr>StatusCode = 500, Body = ''boom''\<rparr>) (\<lambda>b. Inr []) ''books'' = Inl (ClusterError 500 ''boom'')
     \<and> Count (\<lambda>i. Inr \<lparr>StatusCode = 500, Body = ''boom''\<rparr>) (\<lambda>b. Inr []) (\<lambda>v. 0) ''books'' = Inl (ClusterError 500 ''boom'')
     \<and> ClusterHealth (Inr \<lparr>StatusCode = 500, Body = ''boom''\<rparr>) (\<lambda>b. Inr []) = Inl (ClusterError 500 ''boom'')
     \<and> GetInfo (Inr \<lparr>StatusCode = 500, Body = ''boom''\<rparr>) (\<lambda>b. Inr []) = Inl (ClusterError 500 ''boom'')
     \<and> GetIndexes stringsFields scanBody (Inr \<lparr>StatusCode = 500, Body = ''boom''\<rparr>) = Returned (Inl (ClusterError 500 ''boom''))"
    using adapter_errors[
          where res = "\<lparr>StatusCode = 500, Body = ''boom''\<rparr>"
          and ClientBulk = "\<lambda>buf. Inr \<lparr>StatusCode = 500, Body = ''boom''\<rparr>"
          and buf = "[]"
          and Do = "\<lambda>req. Inr \<lparr>StatusCode = 500, Body = ''boom''\<rparr>"
          and esSetting = "\<lparr>GetSettings = [], GetMappings = [], GetAliases = [], GetIndex = ''books''\<rparr>"
          and Exists = "\<lambda>names. Inr \<lparr>StatusCode = 500, Body = ''boom''\<rparr>"
          and indexName = "''books''"
          and Delete = "\<lambda>names. Inr \<lparr>StatusCode = 500, Body = ''boom''\<rparr>"
          and ClientClearScroll = "\<lambda>i. Inr \<lparr>StatusCode = 500, Body = ''boom''\<rparr>"
          and scrollId = "''s''"
          and PutTemplate = "\<lambda>n b. Inr \<lparr>StatusCode = 500, Body = ''boom''\<rparr>"
          and name = "''t''"
          and body = "[]"
          and ClientScroll = "\<lambda>i t. Inr \<lparr>StatusCode = 500, Body = ''boom''\<rparr>"
          and scrollTime = "5"
          and DecodeScroll = "\<lambda>b. Inr \<lparr>Total = 0, Docs = [], ScrollId = ''s''\<rparr>"
          and option = "\<lparr>optScrollSize = 1000, optScrollTime = 5, Query = [], SliceId = None,
             optSliceSize = None, SortFields = []\<rparr>"
          and Search = "\<lambda>req. Inr \<lparr>StatusCode = 500, Body = ''boom''\<rparr>"
          and GetAlias = "\<lambda>i. Inr \<lparr>StatusCode = 500, Body = ''boom''\<rparr>"
          and Decode = "\<lambda>b. Inr []"
          and GetMapping = "\<lambda>i. Inr \<lparr>StatusCode = 500, Body = ''boom''\<rparr>"
          and ClientGetSettings = "\<lambda>i. Inr \<lparr>StatusCode = 500, Body = ''boom''\<rparr>"
          and ClientCount = "\<lambda>i. Inr \<lparr>StatusCode = 500, Body = ''boom''\<rparr>"
          and ToUint = "\<lambda>v. 0"
          and Fields = stringsFields
          and Scan = scanBody
          and status = "500"
          and message = "''boom''"
          and NewSettings = "\<lambda>s m a i. i"
          and existed = "IndexExisted (\<lambda>names. Inr \<lparr>StatusCode = 500, Body = ''boom''\<rparr>) ''books''"
          and settings = "Inr []"
          and mappings = "Inr []"
          and aliases = "Inr []"
          and err = "ClusterError 500 ''boom''"]
    by simp
  have at200:
    "Bulk (\<lambda>buf. Inr \<lparr>StatusCode = 200, Body = ''ok''\<rparr>) [] = None
     \<and> CreateIndex (\<lambda>req. Inr \<lparr>StatusCode = 200, Body = ''ok''\<rparr>)
          \<lparr>GetSettings = [], GetMappings = [], GetAliases = [], GetIndex = ''books''\<rparr> = None
     \<and> IndexExisted (\<lambda>names. Inr \<lparr>StatusCode = 200, Body = ''ok''\<rparr>) ''books'' = (True, None)
     \<and> DeleteIndex (\<lambda>names. Inr \<lparr>StatusCode = 200, Body = ''ok''\<rparr>) ''books'' = None
     \<and> ClearScroll (\<lambda>i. Inr \<lparr>StatusCode = 200, Body = ''ok''\<rparr>) ''s'' = None
     \<and> CreateTemplate (\<lambda>n b. Inr \<lparr>StatusCode = 200, Body = ''ok''\<rparr>) ''t'' [] = None
     \<and> NextScroll (\<lambda>i t. Inr \<lparr>StatusCode = 200, Body = ''ok''\<rparr>)
          (\<lambda>b. Inr \<lparr>Total = 0, Docs = [], ScrollId = ''s''\<rparr>) ''s'' 5
        = Inr \<lparr>Total = 0, Docs = [], ScrollId = ''s''\<rparr>
     \<and> NewScroll (\<lambda>req. Inr \<lparr>StatusCode = 200, Body = ''ok''\<rparr>)
          (\<lambda>b. Inr \<lparr>Total = 0, Docs = [], ScrollId = ''s''\<rparr>) ''books''
          \<lparr>optScrollSize = 1000, optScrollTime = 5, Query = [], SliceId = None,
           optSliceSize = None, SortFields = []\<rparr>
        = Returned (Inr \<lparr>Total = 0, Docs = [], ScrollId = ''s''\<rparr>)
     \<and> GetIndexAliases (\<lambda>i. Inr \<lparr>StatusCode = 200, Body = ''ok''\<rparr>) (\<lambda>b. Inr []) ''books'' = Inr []
     \<and> GetIndexMapping (\<lambda>i. Inr \<lparr>StatusCode = 200, Body = ''ok''\<rparr>) (\<lambda>b. Inr []) ''books'' = Inr []
     \<and> GetIndexSettings (\<lambda>i. Inr \<lparr>StatusCode = 200, Body = ''ok''\<rparr>) (\<lambda>b. Inr []) ''books'' = Inr []
     \<and> Count (\<lambda>i. Inr \<lparr>StatusCode = 200, Body = ''ok''\<rparr>) (\<lambda>b. Inr []) (\<lambda>v. 0) ''books'' = Inr 0
     \<and> ClusterHealth (Inr \<lparr>StatusCode = 200, Body = ''ok''\<rparr>) (\<lambda>b. Inr []) = Inr []
     \<and> GetInfo (Inr \<lparr>StatusCode = 200, Body = ''ok''\<rparr>) (\<lambda>b. Inr []) = Inr []"
    using adapter_errors[
          where res = "\<lparr>StatusCode = 200, Body = ''ok''\<rparr>"
          and ClientBulk = "\<lambda>buf. Inr \<lparr>StatusCode = 200, Body = ''ok''\<rparr>"
          and buf = "[]"
          and Do = "\<lambda>req. Inr \<lparr>StatusCode = 200, Body = ''ok''\<rparr>"
          and esSetting = "\<lparr>GetSettings = [], GetMappings = [], GetAliases = [], GetIndex = ''books''\<rparr>"
          and Exists = "\<lambda>names. Inr \<lparr>StatusCode = 200, Body = ''ok''\<rparr>"
          and indexName = "''books''"
          and Delete = "\<lambda>names. Inr \<lparr>StatusCode = 200, Body = ''ok''\<rparr>"
          and ClientClearScroll = "\<lambda>i. Inr \<lparr>StatusCode = 200, Body = ''ok''\<rparr>"
          and scrollId = "''s''"
          and PutTemplate = "\<lambda>n b. Inr \<lparr>StatusCode = 200, Body = ''ok''\<rparr>"
          and name = "''t''"
          and body = "[]"
          and ClientScroll = "\<lambda>i t. Inr \<lparr>StatusCode = 200, Body = ''ok''\<rparr>"
          and scrollTime = "5"
          and DecodeScroll = "\<lambda>b. Inr \<lparr>Total = 0, Docs = [], ScrollId = ''s''\<rparr>"
          and option = "\<lparr>optScrollSize = 1000, optScrollTime = 5, Query = [], SliceId = None,
             optSliceSize = None, SortFields = []\<rparr>"
          and Search = "\<lambda>req. Inr \<lparr>StatusCode = 200, Body = ''ok''\<rparr>"
          and GetAlias = "\<lambda>i. Inr \<lparr>StatusCode = 200, Body = ''ok''\<rparr>"
          and Decode = "\<lambda>b. Inr []"
          and GetMapping = "\<lambda>i. Inr \<lparr>StatusCode = 200, Body = ''ok''\<rparr>"
          and ClientGetSettings = "\<lambda>i. Inr \<lparr>StatusCode = 200, Body = ''ok''\<rparr>"
          and ClientCount = "\<lambda>i. Inr \<lparr>StatusCode = 200, Body = ''ok''\<rparr>"
          and ToUint = "\<lambda>v. 0"
          and Fields = stringsFields
          and Scan = scanBody
          and status = "200"
          and message = "''ok''"
          and NewSettings = "\<lambda>s m a i. i"
          and existed = "IndexExisted (\<lambda>names. Inr \<lparr>StatusCode = 200, Body = ''ok''\<rparr>) ''books''"
          and settings = "Inr []"
          and mappings = "Inr []"
          and aliases = "Inr []"
          and err = "ClusterError 200 ''ok''"]
    by simp
  have at404:
    "IndexExisted (\<lambda>names. Inr \<lparr>StatusCode = 404, Body = []\<rparr>) ''books'' = (False, None)"
    using adapter_errors[
          where res = "\<lparr>StatusCode = 404, Body = []\<rparr>"
          and ClientBulk = "\<lambda>buf. Inr \<lparr>StatusCode = 404, Body = []\<rparr>"
          and buf = "[]"
          and Do = "\<lambda>req. Inr \<lparr>StatusCode = 404, Body = []\<rparr>"
          and esSetting = "\<lparr>GetSettings = [], GetMappings = [], GetAliases = [], GetIndex = ''books''\<rparr>"
          and Exists = "\<lambda>names. Inr \<lparr>StatusCode = 404, Body = []\<rparr>"
          and indexName = "''books''"
          and Delete = "\<lambda>names. Inr \<lparr>StatusCode = 404, Body = []\<rparr>"
          and ClientClearScroll = "\<lambda>i. Inr \<lparr>StatusCode = 404, Body = []\<rparr>"
          and scrollId = "''s''"
          and PutTemplate = "\<lambda>n b. Inr \<lparr>StatusCode = 404, Body = []\<rparr>"
          and name = "''t''"
          and body = "[]"
          and ClientScroll = "\<lambda>i t. Inr \<lparr>StatusCode = 404, Body = []\<rparr>"
          and scrollTime = "5"
          and DecodeScroll = "\<lambda>b. Inr \<lparr>Total = 0, Docs = [], ScrollId = ''s''\<rparr>"
          and option = "\<lparr>optScrollSize = 1000, optScrollTime = 5, Query = [], SliceId = None,
             optSliceSize = None, SortFields = []\<rparr>"
          and Search = "\<lambda>req. Inr \<lparr>StatusCode = 404, Body = []\<rparr>"
          and GetAlias = "\<lambda>i. Inr \<lparr>StatusCode = 404, Body = []\<rparr>"
          and Decode = "\<lambda>b. Inr []"
          and GetMapping = "\<lambda>i. Inr \<lparr>StatusCode = 404, Body = []\<rparr>"
          and ClientGetSettings = "\<lambda>i. Inr \<lparr>StatusCode = 404, Body = []\<rparr>"
          and ClientCount = "\<lambda>i. Inr \<lparr>StatusCode = 404, Body = []\<rparr>"
          and ToUint = "\<lambda>v. 0"
          and Fields = stringsFields
          and Scan = scanBody
          and status = "404"
          and message = "[]"
          and NewSettings = "\<lambda>s m a i. i"
          and existed = "IndexExisted (\<lambda>names. Inr \<lparr>StatusCode = 404, Body = []\<rparr>) ''books''"
          and settings = "Inr []"
          and mappings = "Inr []"
          and aliases = "Inr []"
          and err = "ClusterError 404 []"]
    by simp
  have composite:
    "GetIndexMappingAndSetting (\<lambda>s m a i. i)
          (IndexExisted (\<lambda>names. Inr \<lparr>StatusCode = 500, Body = ''boom''\<rparr>) ''books'')
          (Inr []) (Inr []) (Inr []) ''books''
        = Inl (ClusterError 500 ''boom'')"
    using at500 by (simp add: GetIndexMappingAndSetting_def)
  from at500 at200 at404 composite show ?thesis by simp
qed

text \<open>
  Claim C7 as stated fails: the status 201 is in the 2xx range, and \<open>Bulk\<close> and
  \<open>CreateIndex\<close> return the cluster error for it.
\<close>

theorem adapter_201_is_error_counterexample:
  "Bulk (\<lambda>buf. Inr \<lparr>StatusCode = 201, Body = ''created''\<rparr>) []
     = Some (ClusterError 201 ''created'')
   \<and> CreateIndex (\<lambda>req. Inr \<lparr>StatusCode = 201, Body = ''created''\<rparr>)
        \<lparr>GetSettings = [], GetMappings = [], GetAliases = [], GetIndex = ''books''\<rparr>
     = Some (ClusterError 201 ''created'')"
  by (simp add: Bulk_def CreateIndex_def formatError_def Let_def)

lemma search_tail_not_panic:
  "(case Search req of
      Inl err \<Rightarrow> Returned (Inl (TransportError err))
    | Inr res \<Rightarrow>
        if StatusCode res \<noteq> 200 then Returned (Inl (formatError res))
        else (case Decode (Body res) of
                Inl err \<Rightarrow> Returned (Inl (DecodeError err))
              | Inr scrollResult \<Rightarrow> Returned (Inr scrollResult))) \<noteq> Panic"
  by (cases "Search req"; cases "Decode (Body (projr (Search req)))") simp_all

lemma NewScroll_without_slice:
  "SliceId option = None \<Longrightarrow> NewScroll Search Decode index option \<noteq> Panic"
  unfolding NewScroll_def Let_def by (simp add: search_tail_not_panic)

lemma NewScroll_with_slice:
  "SliceId option = Some i \<Longrightarrow> optSliceSize option = Some n
   \<Longrightarrow> NewScroll Search Decode index option \<noteq> Panic"
  unfolding NewScroll_def Let_def by (simp add: search_tail_not_panic)

lemma NewScroll_nil_slice_size:
  "SliceId option = Some i \<Longrightarrow> optSliceSize option = None
   \<Longrightarrow> NewScroll Search Decode index option = Panic"
  unfolding NewScroll_def Let_def by simp

lemma NewScroll_slice_clause:
  "SliceId option = Some i \<Longrightarrow> optSliceSize option = Some n \<Longrightarrow>
   NewScroll Search Decode index option =
   NewScroll Search Decode index
     (option\<lparr>SliceId := None,
             Query := AList.update ''slice''
               (JObject [(''field'', JString ''_id''), (''id'', JNumber (uint i)),
                         (''max'', JNumber (uint n))]) (Query option)\<rparr>)"
  unfolding NewScroll_def Let_def by simp

text \<open>
  Claim C9. \<open>NewScroll\<close> panics exactly when the option's \<open>SliceId\<close> is set and its
  \<open>SliceSize\<close> is nil: the slice clause dereferences both. With both set the call is the
  call without a slice whose query holds the clause
  \<open>{field: "_id", id: *SliceId, max: *SliceSize}\<close> under the key \<open>slice\<close>.
\<close>
theorem new_scroll_slice:
  "(NewScroll Search Decode index option = Panic)
     = (SliceId option \<noteq> None \<and> optSliceSize option = None)
   \<and> (SliceId option = Some i \<and> optSliceSize option = Some n \<longrightarrow>
       NewScroll Search Decode index option =
       NewScroll Search Decode index
         (option\<lparr>SliceId := None,
                 Query := AList.update ''slice''
                   (JObject [(''field'', JString ''_id''), (''id'', JNumber (uint i)),
                             (''max'', JNumber (uint n))]) (Query option)\<rparr>))"
proof -
  have a: "(NewScroll Search Decode index option = Panic)
     = (SliceId option \<noteq> None \<and> optSliceSize option = None)"
  proof (cases "SliceId option")
    case None
    then show ?thesis using NewScroll_without_slice[of option Search Decode index] by simp
  next
    case (Some j)
    show ?thesis
    proof (cases "optSliceSize option")
      case None
      with Some show ?thesis
        using NewScroll_nil_slice_size[of option j Search Decode index] by simp
    next
      case (Some k)
      with \<open>SliceId option = Some j\<close> show ?thesis
        using NewScroll_with_slice[of option j k Search Decode index] by simp
    qed
  qed
  from a NewScroll_slice_clause[of option i n Search Decode index] show ?thesis by blast
qed

theorem new_scroll_slice_witness:
  "NewScroll (\<lambda>req. Inr \<lparr>StatusCode = 200, Body = []\<rparr>)
      (\<lambda>body. Inr \<lparr>Total = 0, Docs = [], ScrollId = ''s1''\<rparr>) ''books''
      \<lparr>optScrollSize = 1000, optScrollTime = 5, Query = [], SliceId = Some 0,
       optSliceSize = None, SortFields = []\<rparr> = Panic
   \<and> NewScroll (\<lambda>req. case WithBody req of
                          None \<Rightarrow> Inl ''no body''
                        | Some b \<Rightarrow> Inr \<lparr>StatusCode = 200, Body = []\<rparr>)
      (\<lambda>body. Inr \<lparr>Total = 0, Docs = [], ScrollId = ''s1''\<rparr>) ''books''
      \<lparr>optScrollSize = 1000, optScrollTime = 5, Query = [], SliceId = Some 0,
       optSliceSize = Some 2, SortFields = []\<rparr>
     = Returned (Inr \<lparr>Total = 0, Docs = [], ScrollId = ''s1''\<rparr>)"
  using new_scroll_slice[where Search = "\<lambda>req. Inr \<lparr>StatusCode = 200, Body = []\<rparr>"
      and Decode = "\<lambda>body. Inr \<lparr>Total = 0, Docs = [], ScrollId = ''s1''\<rparr>"
      and index = "''books''"
      and option = "\<lparr>optScrollSize = 1000, optScrollTime = 5, Query = [], SliceId = Some 0,
                     optSliceSize = None, SortFields = []\<rparr>"]
    new_scroll_slice[where Search = "\<lambda>req. case WithBody req of
                          None \<Rightarrow> Inl ''no body''
                        | Some b \<Rightarrow> Inr \<lparr>StatusCode = 200, Body = []\<rparr>"
      and Decode = "\<lambda>body. Inr \<lparr>Total = 0, Docs = [], ScrollId = ''s1''\<rparr>"
      and index = "''books''" and i = 0 and n = 2
      and option = "\<lparr>optScrollSize = 1000, optScrollTime = 5, Query = [], SliceId = Some 0,
                     optSliceSize = Some 2, SortFields = []\<rparr>"]
  by (simp add: NewScroll_def Let_def)

lemma indicesLoop_eq:
  "indicesLoop Fields acc lines =
   (if \<exists>l \<in> set lines. length (Fields l) < 3 then None
    else Some (acc @ map (\<lambda>l. Fields l ! 2) lines))"
  by (induction lines arbitrary: acc) (auto simp: Let_def)

text \<open>
  Claim C10. Let \<open>Fields\<close> be \<open>strings.Fields\<close>. On a response of status 200 whose body
  the scanner yields as \<open>lines\<close>, \<open>GetIndexes\<close> panics exactly when some scanned line has
  fewer than three fields (a line of one or two fields stops the loop in a panic; so does
  a scanned line without any field); when every scanned line has at least three fields
  and the scanner reports no error, it returns the third field of every line, in order.
\<close>

theorem get_indexes_third_field:
  "(StatusCode res = 200 \<and> Scan (Body res) = (lines, scanErr) \<longrightarrow>
      (GetIndexes Fields Scan (Inr res) = Panic) = (\<exists>l \<in> set lines. length (Fields l) < 3))
   \<and> (StatusCode res = 200 \<and> Scan (Body res) = (lines, None)
       \<and> (\<forall>l \<in> set lines. 3 \<le> length (Fields l)) \<longrightarrow>
      GetIndexes Fields Scan (Inr res) = Returned (Inr (map (\<lambda>l. Fields l ! 2) lines)))
   \<and> (length (Fields l) = 1 \<or> length (Fields l) = 2 \<longrightarrow>
        indicesLoop Fields indices (l # rest) = None)"
proof -
  have a: "StatusCode res = 200 \<and> Scan (Body res) = (lines, scanErr) \<longrightarrow>
      (GetIndexes Fields Scan (Inr res) = Panic) = (\<exists>l \<in> set lines. length (Fields l) < 3)"
    by (simp add: GetIndexes_def indicesLoop_eq split: option.splits)
  have b: "StatusCode res = 200 \<and> Scan (Body res) = (lines, None)
       \<and> (\<forall>l \<in> set lines. 3 \<le> length (Fields l)) \<longrightarrow>
      GetIndexes Fields Scan (Inr res) = Returned (Inr (map (\<lambda>l. Fields l ! 2) lines))"
  proof (intro impI, elim conjE)
    assume h: "StatusCode res = 200" "Scan (Body res) = (lines, None)"
      "\<forall>l \<in> set lines. 3 \<le> length (Fields l)"
    then have "\<not> (\<exists>l \<in> set lines. length (Fields l) < 3)" by (simp add: not_less)
    with h show "GetIndexes Fields Scan (Inr res)
        = Returned (Inr (map (\<lambda>l. Fields l ! 2) lines))"
      by (simp add: GetIndexes_def indicesLoop_eq)
  qed
  have c: "length (Fields l) = 1 \<or> length (Fields l) = 2 \<longrightarrow>
      indicesLoop Fields indices (l # rest) = None"
    by (auto simp: Let_def)
  from a b c show ?thesis by blast
qed

lemma stringsFields_examples:
  "stringsFields ''g o idx1 u'' = [''g'', ''o'', ''idx1'', ''u'']
   \<and> stringsFields [CHR ''y'', CHR 0xC2, CHR 0xA0, CHR ''o'', CHR 0x09, CHR 0xE2, CHR 0x80, CHR 0x83,
                     CHR ''i'', CHR ''d'', CHR ''x'', CHR ''2''] = [''y'', ''o'', ''idx2'']
   \<and> stringsFields ''y o'' = [''y'', ''o'']
   \<and> stringsFields [] = []"
  by code_simp

lemma scanBody_examples:
  "scanBody (''g o idx1 u'' @ [CHR 0x0A]
             @ [CHR ''y'', CHR 0xC2, CHR 0xA0, CHR ''o'', CHR 0x09, CHR 0xE2, CHR 0x80, CHR 0x83,
                CHR ''i'', CHR ''d'', CHR ''x'', CHR ''2'', CHR 0x0D, CHR 0x0A])
     = ([''g o idx1 u'',
         [CHR ''y'', CHR 0xC2, CHR 0xA0, CHR ''o'', CHR 0x09, CHR 0xE2, CHR 0x80, CHR 0x83,
          CHR ''i'', CHR ''d'', CHR ''x'', CHR ''2'']], None)
   \<and> scanBody (''g o idx1 u'' @ [CHR 0x0A] @ ''y o'' @ [CHR 0x0A])
     = ([''g o idx1 u'', ''y o''], None)
   \<and> scanBody (''g o idx1 u'' @ [CHR 0x0A, CHR 0x0A]) = ([''g o idx1 u'', []], None)"
  by code_simp

theorem get_indexes_third_field_witness:
  "GetIndexes stringsFields scanBody
     (Inr \<lparr>StatusCode = 200,
           Body = ''g o idx1 u'' @ [CHR 0x0A]
             @ [CHR ''y'', CHR 0xC2, CHR 0xA0, CHR ''o'', CHR 0x09, CHR 0xE2, CHR 0x80, CHR 0x83,
                CHR ''i'', CHR ''d'', CHR ''x'', CHR ''2'', CHR 0x0D, CHR 0x0A]\<rparr>)
     = Returned (Inr [''idx1'', ''idx2''])
   \<and> GetIndexes stringsFields scanBody
     (Inr \<lparr>StatusCode = 200, Body = ''g o idx1 u'' @ [CHR 0x0A] @ ''y o'' @ [CHR 0x0A]\<rparr>) = Panic
   \<and> GetIndexes stringsFields scanBody
     (Inr \<lparr>StatusCode = 200, Body = ''g o idx1 u'' @ [CHR 0x0A, CHR 0x0A]\<rparr>) = Panic
   \<and> length (stringsFields ''y o'') = 2
   \<and> indicesLoop stringsFields [''idx1''] [''y o''] = None"
proof -
  note fields = stringsFields_examples
  have unicode_line:
    "GetIndexes stringsFields scanBody
     (Inr \<lparr>StatusCode = 200,
           Body = ''g o idx1 u'' @ [CHR 0x0A]
             @ [CHR ''y'', CHR 0xC2, CHR 0xA0, CHR ''o'', CHR 0x09, CHR 0xE2, CHR 0x80, CHR 0x83,
                CHR ''i'', CHR ''d'', CHR ''x'', CHR ''2'', CHR 0x0D, CHR 0x0A]\<rparr>)
     = Returned (Inr [''idx1'', ''idx2''])"
    using get_indexes_third_field[where Fields = stringsFields and Scan = scanBody
        and res = "\<lparr>StatusCode = 200,
           Body = ''g o idx1 u'' @ [CHR 0x0A]
             @ [CHR ''y'', CHR 0xC2, CHR 0xA0, CHR ''o'', CHR 0x09, CHR 0xE2, CHR 0x80, CHR 0x83,
                CHR ''i'', CHR ''d'', CHR ''x'', CHR ''2'', CHR 0x0D, CHR 0x0A]\<rparr>"
        and lines = "[''g o idx1 u'',
                      [CHR ''y'', CHR 0xC2, CHR 0xA0, CHR ''o'', CHR 0x09, CHR 0xE2, CHR 0x80,
                       CHR 0x83, CHR ''i'', CHR ''d'', CHR ''x'', CHR ''2'']]"
        and scanErr = None and l = "''y o''" and indices = "[''idx1'']" and rest = "[]"]
      scanBody_examples fields
    by simp
  have short_line:
    "GetIndexes stringsFields scanBody
     (Inr \<lparr>StatusCode = 200, Body = ''g o idx1 u'' @ [CHR 0x0A] @ ''y o'' @ [CHR 0x0A]\<rparr>) = Panic
     \<and> length (stringsFields ''y o'') = 2
     \<and> indicesLoop stringsFields [''idx1''] [''y o''] = None"
    using get_indexes_third_field[where Fields = stringsFields and Scan = scanBody
        and res = "\<lparr>StatusCode = 200,
                   Body = ''g o idx1 u'' @ [CHR 0x0A] @ ''y o'' @ [CHR 0x0A]\<rparr>"
        and lines = "[''g o idx1 u'', ''y o'']" and scanErr = None
        and l = "''y o''" and indices = "[''idx1'']" and rest = "[]"]
      scanBody_examples fields
    by simp
  have blank_line:
    "GetIndexes stringsFields scanBody
     (Inr \<lparr>StatusCode = 200, Body = ''g o idx1 u'' @ [CHR 0x0A, CHR 0x0A]\<rparr>) = Panic"
    using get_indexes_third_field[where Fields = stringsFields and Scan = scanBody
        and res = "\<lparr>StatusCode = 200, Body = ''g o idx1 u'' @ [CHR 0x0A, CHR 0x0A]\<rparr>"
        and lines = "[''g o idx1 u'', []]" and scanErr = None
        and l = "''y o''" and indices = "[''idx1'']" and rest = "[]"]
      scanBody_examples fields
    by simp
  from unicode_line short_line blank_line show ?thesis by simp
qed

section \<open>Properties of the gateway's payload rewrites\<close>

lemma proxyHeader_example:
  "proxyHeader [(''Content-Length'', [''66'']),
                (''Content-Type'', [''application/json; charset=UTF-8''])]
   = [(''Content-Length'', [''66'']),
      (''Content-Type'', [''application/json; charset=UTF-8''])]"
  by (simp add: proxyHeader_def proxyHeaderValue_def)

text \<open>
  Claim C2 says that the client receives the rewritten total, 42 under \<open>hit.total\<close> for
  a master of version 7 answering a source cluster below 7. The handler copies every
  header of the master's response onto the client's response before it hands the
  rewritten body to \<open>c.JSON\<close>. Let such a master answer with status 200, a JSON object of
  66 bytes and the header \<open>Content-Length: 66\<close>, which \<open>proxy\<close> passes on. Whatever the
  lookup and the store by path are, the client's response then declares the content
  length 66 of the master's body, while the body handed to \<open>c.JSON\<close> is the master's
  after the store at \<open>hit.total\<close>: a store that adds the key makes the encoded body
  longer than the header declares, a store that adds nothing leaves the body without the
  key.
\<close>

theorem master_content_length_on_rewritten_body:
  "onHandler (\<lambda>r. r = 2) Get Set
     \<lparr>gwSourceES = 1, gwTargetES = 2, gwMasterES = 2, gwSlaveES = 1\<rparr>
     (Inr (proxyHeader [(''Content-Length'', [''66'']),
                        (''Content-Type'', [''application/json; charset=UTF-8''])],
           200, JObject bodyMap))
   = Returned
       \<lparr>ansHeader = [(''Content-Length'', [''66'']),
                     (''Content-Type'', [''application/json; charset=UTF-8''])],
        ansStatus = 200,
        ansBody = JObject (Set bodyMap ''hit.total''
                             (valueOrNil (Get bodyMap ''hits.total.value'')))\<rparr>"
  by (simp add: onHandler_def proxyHeader_example ginHeader_def Let_def)

text \<open>
  The same call with the lookup and the store by path modelled from the spec, on the
  66 bytes \<open>{"took":3,"hits":{"total":{"value":42,"relation":"eq"},"hits":[]}}\<close>: the body
  handed to \<open>c.JSON\<close> holds 42 under \<open>hit.total\<close> beside the untouched \<open>took\<close> and
  \<open>hits\<close>, 85 bytes once encoded, under the header that declares 66.
\<close>

lemma Split_hit_total: "Split ''hit.total'' (CHR ''.'') = [''hit'', ''total'']"
  by (simp add: Split_def)

lemma SetValue_hit_total_stored:
  "GetValueFromMapByPath (SetValueFromMapByPath m ''hit.total'' v) ''hit.total'' = Some v"
  by (simp add: GetValueFromMapByPath_def SetValueFromMapByPath_def Split_hit_total update_conv')

lemma SetValue_hit_total_rest:
  "key \<noteq> ''hit'' \<Longrightarrow> map_of (SetValueFromMapByPath m ''hit.total'' v) key = map_of m key"
  by (simp add: SetValueFromMapByPath_def Split_hit_total update_conv')

lemma rewritten_body_example:
  "onHandler (\<lambda>r. r = 2) GetValueFromMapByPath SetValueFromMapByPath
     \<lparr>gwSourceES = 1, gwTargetES = 2, gwMasterES = 2, gwSlaveES = 1\<rparr>
     (Inr (proxyHeader [(''Content-Length'', [''66'']),
                        (''Content-Type'', [''application/json; charset=UTF-8''])],
           200,
           JObject [(''took'', JNumber 3),
                    (''hits'', JObject [(''total'', JObject [(''value'', JNumber 42),
                                                             (''relation'', JString ''eq'')]),
                                        (''hits'', JArray [])])]))
   = Returned
       \<lparr>ansHeader = [(''Content-Length'', [''66'']),
                     (''Content-Type'', [''application/json; charset=UTF-8''])],
        ansStatus = 200,
        ansBody = JObject [(''took'', JNumber 3),
                           (''hits'', JObject [(''total'', JObject [(''value'', JNumber 42),
                                                                    (''relation'', JString ''eq'')]),
                                               (''hits'', JArray [])]),
                           (''hit'', JObject [(''total'', JNumber 42)])]\<rparr>"
  by (simp add: onHandler_def proxyHeader_example ginHeader_def Let_def
      GetValueFromMapByPath_def SetValueFromMapByPath_def Split_def valueOrNil_def)

text \<open>
  Claim C3, as the code has it. When master and slave are of different families and the
  mappings of the request body are \<open>{properties: P}\<close>, \<open>modifyMappings\<close> replaces them by
  \<open>{"doc": {properties: P}}\<close>: the type name the code adds is \<open>doc\<close>.
\<close>

theorem typeless_mapping_wrapped_as_doc:
  "gte (gwMasterES g) \<noteq> gte (gwSlaveES g)
   \<and> map_of data ''mappings'' = Some (JObject [(''properties'', P)]) \<longrightarrow>
   modifyMappings gte g (Some (JObject data)) =
     Returned (Inr (Some (JObject (AList.update ''mappings''
       (JObject [(''doc'', JObject [(''properties'', P)])]) data))))"
  by (simp add: modifyMappings_def Let_def)

theorem typeless_mapping_wrapped_as_doc_witness:
  "modifyMappings (\<lambda>r. r = 2) \<lparr>gwSourceES = 1, gwTargetES = 2, gwMasterES = 2, gwSlaveES = 1\<rparr>
     (Some (JObject [(''settings'', JObject []),
                     (''mappings'', JObject [(''properties'',
                        JObject [(''title'', JObject [(''type'', JString ''text'')])])])]))
   = Returned (Inr (Some (JObject [(''settings'', JObject []),
                     (''mappings'', JObject [(''doc'', JObject [(''properties'',
                        JObject [(''title'', JObject [(''type'', JString ''text'')])])])])])))"
  using typeless_mapping_wrapped_as_doc[where gte = "\<lambda>r. r = 2"
      and g = "\<lparr>gwSourceES = 1, gwTargetES = 2, gwMasterES = 2, gwSlaveES = 1\<rparr>"
      and data = "[(''settings'', JObject []),
                     (''mappings'', JObject [(''properties'',
                        JObject [(''title'', JObject [(''type'', JString ''text'')])])])]"
      and P = "JObject [(''title'', JObject [(''type'', JString ''text'')])]"]
  by simp

text \<open>
  Claim C3 as stated fails: the rewritten mappings are keyed by \<open>doc\<close>, not by \<open>_doc\<close>.
\<close>

theorem typeless_mapping_not_keyed_by_underscore_doc_counterexample:
  "modifyMappings (\<lambda>r. r = 2) \<lparr>gwSourceES = 1, gwTargetES = 2, gwMasterES = 2, gwSlaveES = 1\<rparr>
     (Some (JObject [(''mappings'', JObject [(''properties'', JObject [])])]))
   = Returned (Inr (Some (JObject [(''mappings'',
        JObject [(''doc'', JObject [(''properties'', JObject [])])])])))
   \<and> modifyMappings (\<lambda>r. r = 2) \<lparr>gwSourceES = 1, gwTargetES = 2, gwMasterES = 2, gwSlaveES = 1\<rparr>
     (Some (JObject [(''mappings'', JObject [(''properties'', JObject [])])]))
   \<noteq> Returned (Inr (Some (JObject [(''mappings'',
        JObject [(''_doc'', JObject [(''properties'', JObject [])])])])))"
  by (simp add: modifyMappings_def Let_def)

end
